theory Spec2Isabelle
  imports Main "HOL-Library.Multiset"
begin

section \<open>The GCE system-variable collector of sysvars/sysvars_gce.go\<close>

text \<open>
  The collector fills a table of system variables (a Go \<open>map[string]string\<close>) from the
  GCE metadata service, the process environment and the compute API. Everything outside
  the file (the metadata client, the Kubernetes probe, the environment, the compute API)
  is an \<open>env\<close> record of answers; the table and the two loggers are a \<open>state\<close> record
  that every function takes and returns. Go strings are byte strings, here \<open>string\<close>.
\<close>

subsection \<open>Library functions of package strings and fmt\<close>

text \<open>
  \<open>strings.Split(s, sep)\<close> for a one-byte separator, the only way the collector calls it:
  the substrings of \<open>s\<close> between the occurrences of \<open>sep\<close>, so one more token than there
  are separators, and \<open>[s]\<close> when \<open>s\<close> has none. A byte that is no separator goes in front
  of the first token of the rest, and the rest always has a first token.
\<close>

fun Split :: "string \<Rightarrow> char \<Rightarrow> string list" where
  "Split [] sep = [[]]"
| "Split (c # cs) sep =
     (if c = sep then [] # Split cs sep
      else (case Split cs sep of
              [] \<Rightarrow> [[c]]
            | t # ts \<Rightarrow> (c # t) # ts))"

text \<open>\<open>strings.Join(elems, sep)\<close>.\<close>

fun Join :: "string list \<Rightarrow> string \<Rightarrow> string" where
  "Join [] sep = []"
| "Join [x] sep = x"
| "Join (x # y # ys) sep = x @ sep @ Join (y # ys) sep"

text \<open>
  \<open>strings.TrimSpace(s)\<close> removes the leading and the trailing white space of \<open>s\<close>, white
  space being the code points of \<open>unicode.IsSpace\<close> in their UTF-8 encoding: the six ASCII
  ones, U+0085, U+00A0, U+1680, U+2000 to U+200A, U+2028, U+2029, U+202F, U+205F and U+3000.
  None of these encodings is the beginning or the end of another, and an invalid encoding
  decodes to U+FFFD, which is not white space.
\<close>

definition spaceRunes :: "string list" where
  "spaceRunes =
     [[CHR 0x09], [CHR 0x0A], [CHR 0x0B], [CHR 0x0C], [CHR 0x0D], [CHR 0x20],
      [CHR 0xC2, CHR 0x85], [CHR 0xC2, CHR 0xA0],
      [CHR 0xE1, CHR 0x9A, CHR 0x80],
      [CHR 0xE2, CHR 0x80, CHR 0x80], [CHR 0xE2, CHR 0x80, CHR 0x81],
      [CHR 0xE2, CHR 0x80, CHR 0x82], [CHR 0xE2, CHR 0x80, CHR 0x83],
      [CHR 0xE2, CHR 0x80, CHR 0x84], [CHR 0xE2, CHR 0x80, CHR 0x85],
      [CHR 0xE2, CHR 0x80, CHR 0x86], [CHR 0xE2, CHR 0x80, CHR 0x87],
      [CHR 0xE2, CHR 0x80, CHR 0x88], [CHR 0xE2, CHR 0x80, CHR 0x89],
      [CHR 0xE2, CHR 0x80, CHR 0x8A],
      [CHR 0xE2, CHR 0x80, CHR 0xA8], [CHR 0xE2, CHR 0x80, CHR 0xA9],
      [CHR 0xE2, CHR 0x80, CHR 0xAF],
      [CHR 0xE2, CHR 0x81, CHR 0x9F],
      [CHR 0xE3, CHR 0x80, CHR 0x80]]"

text \<open>The byte length of the white-space rune \<open>s\<close> starts with (ends with), 0 if none.\<close>

definition leadingSpace :: "string \<Rightarrow> nat" where
  "leadingSpace s =
     (case filter (\<lambda>w. take (length w) s = w) spaceRunes of
        [] \<Rightarrow> 0
      | w # _ \<Rightarrow> length w)"

definition trailingSpace :: "string \<Rightarrow> nat" where
  "trailingSpace s =
     (case filter (\<lambda>w. drop (length s - length w) s = w) spaceRunes of
        [] \<Rightarrow> 0
      | w # _ \<Rightarrow> length w)"

function TrimLeft :: "string \<Rightarrow> string" where
  "TrimLeft s =
     (if leadingSpace s = 0 then s else TrimLeft (drop (leadingSpace s) s))"
  by pat_completeness auto
termination
proof (relation "measure length")
  show "wf (measure length)" by simp
next
  fix s :: string
  assume n: "leadingSpace s \<noteq> 0"
  have "filter (\<lambda>w. take (length w) [] = w) spaceRunes = []"
    by (simp add: spaceRunes_def)
  with n have "s \<noteq> []" by (auto simp: leadingSpace_def)
  with n show "(drop (leadingSpace s) s, s) \<in> measure length" by simp
qed

function TrimRight :: "string \<Rightarrow> string" where
  "TrimRight s =
     (if trailingSpace s = 0 then s
      else TrimRight (take (length s - trailingSpace s) s))"
  by pat_completeness auto
termination
proof (relation "measure length")
  show "wf (measure length)" by simp
next
  fix s :: string
  assume n: "trailingSpace s \<noteq> 0"
  have "filter (\<lambda>w. drop (length ([]::string) - length w) [] = w) spaceRunes = []"
    by (simp add: spaceRunes_def)
  with n have "s \<noteq> []" by (auto simp: trailingSpace_def)
  with n show "(take (length s - trailingSpace s) s, s) \<in> measure length" by simp
qed

definition TrimSpace :: "string \<Rightarrow> string" where
  "TrimSpace s = TrimRight (TrimLeft s)"

text \<open>The verbs \<open>%d\<close> and \<open>%v\<close> of \<open>fmt.Sprintf\<close> on a non-negative \<open>int\<close>: decimal digits.\<close>

definition digit :: "nat \<Rightarrow> char" where
  "digit n = ''0123456789'' ! (n mod 10)"

fun itoa :: "nat \<Rightarrow> string" where
  "itoa n = (if n < 10 then [digit n] else itoa (n div 10) @ [digit n])"

declare itoa.simps [simp del]

text \<open>
  The verb \<open>%q\<close> on a string of printable ASCII bytes with no quote and no backslash in
  it, which every key of the attribute loop is: the string between double quotes.
\<close>

definition Quote :: "string \<Rightarrow> string" where
  "Quote s = [CHR 0x22] @ s @ [CHR 0x22]"

text \<open>
  Indexing and slicing a Go slice panic out of range; \<open>None\<close> is the panic. The slice
  expression is checked against the length here (Go checks it against the capacity, which
  is no smaller), so the model panics wherever the program does.
\<close>

definition index :: "'a list \<Rightarrow> int \<Rightarrow> 'a option" where
  "index xs i = (if 0 \<le> i \<and> i < int (length xs) then Some (xs ! nat i) else None)"

definition slice :: "'a list \<Rightarrow> int \<Rightarrow> int \<Rightarrow> 'a list option" where
  "slice xs lo hi =
     (if 0 \<le> lo \<and> lo \<le> hi \<and> hi \<le> int (length xs)
      then Some (take (nat hi - nat lo) (drop (nat lo) xs))
      else None)"

subsection \<open>The world outside and the state\<close>

text \<open>An \<open>error\<close> is the text of a non-nil Go error; a result is \<open>Inl\<close> the error or \<open>Inr\<close> the value.\<close>

type_synonym error = string

type_synonym vartable = "string \<rightharpoonup> string"

datatype level = Warning | Info | Debug

type_synonym logline = "level \<times> string"

text \<open>The \<open>compute.Instance\<close> resource, of which only the labels are read, in the order \<open>range\<close> yields them.\<close>

record Instance =
  Labels :: "(string \<times> string) list"

text \<open>
  The answers of the collaborators: package \<open>metadata\<close> of the cloud SDK, package
  \<open>common/metadata\<close> (\<open>md\<close>), \<open>os.Getenv\<close> and the compute API. \<open>NewService\<close> is the error of
  the client constructor, if any. \<open>rangeOrder\<close> is the order in which the runtime's
  \<open>range\<close> walks the entries of the map \<open>metadataFuncs\<close>, which Go leaves unspecified.
\<close>

record env =
  OnGCE :: bool
  ProjectID :: "error + string"
  NumericProjectID :: "error + string"
  InstanceID :: "error + string"
  InstanceName :: "error + string"
  Zone :: "error + string"
  InternalIP :: "error + string"
  ExternalIP :: "error + string"
  InstanceAttributeValue :: "string \<Rightarrow> error + string"
  Get :: "string \<Rightarrow> error + string"
  IsKubernetes :: bool
  KubernetesNamespace :: string
  Getenv :: "string \<Rightarrow> string"
  NewService :: "error option"
  InstancesGet :: "string \<Rightarrow> string \<Rightarrow> string \<Rightarrow> error + Instance"
  rangeOrder :: "(string \<times> (error + string)) list \<Rightarrow> (string \<times> (error + string)) list"

text \<open>
  The table \<open>vars\<close> (an allocated map), the lines written to the logger \<open>l\<close> that
  \<open>gceVars\<close> is given, and the lines written to the package-level logger \<open>l\<close> that
  \<open>labelsFromGCE\<close> uses.
\<close>

record state =
  vars :: vartable
  logs :: "logline list"
  pkg_logs :: "logline list"

definition logf :: "level \<Rightarrow> string \<Rightarrow> state \<Rightarrow> state" where
  "logf lvl msg st = st\<lparr>logs := logs st @ [(lvl, msg)]\<rparr>"

definition setVar :: "string \<Rightarrow> string \<Rightarrow> state \<Rightarrow> state" where
  "setVar k v st = st\<lparr>vars := (vars st)(k \<mapsto> v)\<rparr>"

text \<open>Reading a Go map: the zero value \<open>""\<close> for a key that is not there.\<close>

definition getVar :: "vartable \<Rightarrow> string \<Rightarrow> string" where
  "getVar m k = (case m k of None \<Rightarrow> [] | Some v \<Rightarrow> v)"

subsection \<open>commonGCEGKEVars\<close>

definition metadataFuncs :: "env \<Rightarrow> (string \<times> (error + string)) list" where
  "metadataFuncs env =
     [(''project'', ProjectID env),
      (''project_id'', NumericProjectID env),
      (''instance_id'', InstanceID env)]"

definition metadataError :: "string \<Rightarrow> error \<Rightarrow> error" where
  "metadataError k err =
     ''sysvars_gce: error while getting '' @ k @ '' from metadata: '' @ err"

fun commonLoop :: "(string \<times> (error + string)) list \<Rightarrow> vartable \<Rightarrow> error option \<times> vartable" where
  "commonLoop [] m = (None, m)"
| "commonLoop ((k, fn) # rest) m =
     (case fn of
        Inl err \<Rightarrow> (Some (metadataError k err), m)
      | Inr v \<Rightarrow> commonLoop rest (m(k \<mapsto> v)))"

definition commonGCEGKEVars :: "env \<Rightarrow> vartable \<Rightarrow> error option \<times> vartable" where
  "commonGCEGKEVars env m = commonLoop (rangeOrder env (metadataFuncs env)) m"

subsection \<open>addGceNicInfo\<close>

definition maxNICs :: nat where
  "maxNICs = 8"

definition nicIPPath :: "nat \<Rightarrow> string" where
  "nicIPPath i = ''instance/network-interfaces/'' @ itoa i @ ''/ip''"

definition nicIPv6Path :: "nat \<Rightarrow> string" where
  "nicIPv6Path i = ''instance/network-interfaces/'' @ itoa i @ ''/ipv6s''"

definition nicIPKey :: "nat \<Rightarrow> string" where
  "nicIPKey i = ''nic_'' @ itoa i @ ''_ip''"

text \<open>One pass of the loop body for slot \<open>i\<close>; \<open>continue\<close> leaves the state as it is.\<close>

definition nicBody :: "env \<Rightarrow> nat \<Rightarrow> state \<Rightarrow> state" where
  "nicBody env i st =
     (case Get env (nicIPPath i) of
        Inl err \<Rightarrow> st
      | Inr v \<Rightarrow>
          (let st1 = setVar (nicIPKey i) v st;
               k = nicIPv6Path i
           in case Get env k of
                Inl err \<Rightarrow>
                  logf Debug (''VM does not have ipv6 ip on interface# '' @ itoa i) st1
              | Inr v6 \<Rightarrow>
                  (let w = TrimSpace v6;
                       st2 = setVar k w st1
                   in if i = 0 then setVar ''internal_ipv6_ip'' w st2 else st2)))"

definition addGceNicInfo :: "env \<Rightarrow> state \<Rightarrow> state" where
  "addGceNicInfo env st = fold (nicBody env) [0..<maxNICs] st"

subsection \<open>labelsFromGCE\<close>

text \<open>
  The result and the lines added to the package-level logger. The nil map of the two
  early returns is the empty list of entries: \<open>range\<close> over it runs no iteration.
\<close>

definition labelsFromGCE ::
  "env \<Rightarrow> string \<Rightarrow> string \<Rightarrow> string \<Rightarrow> logline list \<Rightarrow> (error + (string \<times> string) list) \<times> logline list" where
  "labelsFromGCE env project zone instance pl =
     (case NewService env of
        Some err \<Rightarrow>
          (Inl (''error creating compute service to get instance labels: '' @ err), pl)
      | None \<Rightarrow>
          (case InstancesGet env project zone instance of
             Inl err \<Rightarrow>
               (Inr [],
                pl @ [(Warning,
                  ''sysvars_gce: Error while fetching the instance resource using GCE API: ''
                  @ err @ ''. Continuing without labels info.'')])
           | Inr i \<Rightarrow> (Inr (Labels i), pl)))"

subsection \<open>gceVars\<close>

definition getLastToken :: "string \<Rightarrow> string option" where
  "getLastToken value =
     (let tokens = Split value CHR ''/''
      in index tokens (int (length tokens) - 1))"

text \<open>
  The end of a loop pass: \<open>if err != nil { return onGCE, ... }\<close>, then \<open>vars[k] = v\<close>.
  \<open>Some err\<close> in the first component is \<open>gceVars\<close> returning that error.
\<close>

definition storeAttr :: "string \<Rightarrow> error + string \<Rightarrow> state \<Rightarrow> error option \<times> state" where
  "storeAttr k r st =
     (case r of
        Inl err \<Rightarrow> (Some (metadataError k err), st)
      | Inr v \<Rightarrow> (None, setVar k v st))"

text \<open>One pass of the loop over the five keys: the \<open>switch\<close> and what follows it. \<open>None\<close> is a panic.\<close>

definition attrBody :: "env \<Rightarrow> string \<Rightarrow> state \<Rightarrow> (error option \<times> state) option" where
  "attrBody env k st =
     (if k = ''zone'' then Some (storeAttr k (Zone env) st)
      else if k = ''internal_ip'' then Some (storeAttr k (InternalIP env) st)
      else if k = ''external_ip'' then Some (storeAttr k (ExternalIP env) st)
      else if k = ''instance_template'' then
        (case InstanceAttributeValue env ''instance-template'' of
           Inl err \<Rightarrow>
             Some (storeAttr k (Inr ''undefined'')
                    (logf Info ''No instance_template found. Defaulting to undefined.'' st))
         | Inr v \<Rightarrow>
             (case getLastToken v of
                None \<Rightarrow> None
              | Some t \<Rightarrow> Some (storeAttr k (Inr t) st)))
      else if k = ''machine_type'' then
        (case Get env ''instance/machine-type'' of
           Inl err \<Rightarrow>
             Some (storeAttr k (Inr ''undefined'')
                    (logf Info ''Could not fetch machine type. Defaulting to undefined.'' st))
         | Inr v \<Rightarrow>
             (case getLastToken v of
                None \<Rightarrow> None
              | Some t \<Rightarrow> Some (storeAttr k (Inr t) st)))
      else Some (Some (''sysvars_gce: unknown variable key '' @ Quote k), st))"

fun attrLoop :: "env \<Rightarrow> string list \<Rightarrow> state \<Rightarrow> (error option \<times> state) option" where
  "attrLoop env [] st = Some (None, st)"
| "attrLoop env (k # ks) st =
     (case attrBody env k st of
        None \<Rightarrow> None
      | Some (Some err, st') \<Rightarrow> Some (Some err, st')
      | Some (None, st') \<Rightarrow> attrLoop env ks st')"

definition attrKeys :: "string list" where
  "attrKeys = [''zone'', ''internal_ip'', ''external_ip'', ''instance_template'', ''machine_type'']"

text \<open>Lines 135 and 136: the region from the zone that is in the table.\<close>

definition setRegion :: "state \<Rightarrow> state option" where
  "setRegion st =
     (let zoneParts = Split (getVar (vars st) ''zone'') CHR ''-''
      in case slice zoneParts 0 (int (length zoneParts) - 1) of
           None \<Rightarrow> None
         | Some ps \<Rightarrow> Some (setVar ''region'' (Join ps ''-'') st))"

text \<open>Lines 144 to 149: each label under its key with the prefix \<open>label_\<close>.\<close>

fun addLabels :: "(string \<times> string) list \<Rightarrow> state \<Rightarrow> state" where
  "addLabels [] st = st"
| "addLabels ((k, v) # rest) st = addLabels rest (setVar (''label_'' @ k) v st)"

text \<open>
  \<open>gceVars\<close> returns the pair of Go results and the state it leaves; \<open>None\<close> is a panic.
\<close>

definition gceVars :: "env \<Rightarrow> state \<Rightarrow> ((bool \<times> error option) \<times> state) option" where
  "gceVars env st =
     (let onGCE = OnGCE env in
      if \<not> onGCE then Some ((False, None), st)
      else
        case commonGCEGKEVars env (vars st) of
          (Some err, m) \<Rightarrow> Some ((onGCE, Some err), st\<lparr>vars := m\<rparr>)
        | (None, m) \<Rightarrow>
            (let st1 = st\<lparr>vars := m\<rparr> in
             if IsKubernetes env
             then Some ((onGCE, None), setVar ''namespace'' (KubernetesNamespace env) st1)
             else
               case InstanceName env of
                 Inl err \<Rightarrow>
                   Some ((onGCE, None),
                     setVar ''instance'' (Getenv env ''HOSTNAME'')
                       (logf Warning
                          (''Error getting instance name on GCE, using HOSTNAME environment variable: '' @ err)
                          st1))
               | Inr instance \<Rightarrow>
                   (case attrLoop env attrKeys (setVar ''instance'' instance st1) of
                      None \<Rightarrow> None
                    | Some (Some err, st2) \<Rightarrow> Some ((onGCE, Some err), st2)
                    | Some (None, st2) \<Rightarrow>
                        (case setRegion st2 of
                           None \<Rightarrow> None
                         | Some st3 \<Rightarrow>
                             (let st4 = addGceNicInfo env st3 in
                              case labelsFromGCE env (getVar (vars st4) ''project'')
                                     (getVar (vars st4) ''zone'') (getVar (vars st4) ''instance'')
                                     (pkg_logs st4) of
                                (Inl err, pl) \<Rightarrow> Some ((onGCE, Some err), st4\<lparr>pkg_logs := pl\<rparr>)
                              | (Inr labels, pl) \<Rightarrow>
                                  Some ((onGCE, None), addLabels labels (st4\<lparr>pkg_logs := pl\<rparr>)))))))"


text \<open>
  What Go promises of \<open>range\<close> over a map: every entry once, in some order.
\<close>

definition rangeIsPermutation :: "env \<Rightarrow> bool" where
  "rangeIsPermutation env \<longleftrightarrow>
     mset (rangeOrder env (metadataFuncs env)) = mset (metadataFuncs env)"

subsection \<open>Example inputs\<close>

text \<open>
  A GCE virtual machine outside Kubernetes: interfaces in slots 0 and 2, an IPv6 address on
  slot 0, no instance template, one label. The runtime walks \<open>metadataFuncs\<close> backwards.
\<close>

definition exampleEnv :: env where
  "exampleEnv =
     \<lparr>OnGCE = True,
      ProjectID = Inr ''my-project'',
      NumericProjectID = Inr ''1234567'',
      InstanceID = Inr ''8765'',
      InstanceName = Inr ''vm-1'',
      Zone = Inr ''us-central1-a'',
      InternalIP = Inr ''10.0.0.5'',
      ExternalIP = Inr ''34.1.2.3'',
      InstanceAttributeValue = (\<lambda>k. Inl ''metadata: not defined''),
      Get = (\<lambda>k.
        if k = ''instance/machine-type'' then Inr ''projects/1234567/machineTypes/e2-small''
        else if k = ''instance/network-interfaces/0/ip'' then Inr ''10.0.0.5''
        else if k = ''instance/network-interfaces/2/ip'' then Inr ''10.2.0.5''
        else if k = ''instance/network-interfaces/0/ipv6s'' then Inr ''  2001:db8::1  ''
        else Inl ''metadata: not defined''),
      IsKubernetes = False,
      KubernetesNamespace = ''default'',
      Getenv = (\<lambda>k. if k = ''HOSTNAME'' then ''host-1'' else []),
      NewService = None,
      InstancesGet = (\<lambda>project zone instance. Inr \<lparr>Labels = [(''env'', ''prod'')]\<rparr>),
      rangeOrder = rev\<rparr>"

definition emptyState :: state where
  "emptyState = \<lparr>vars = Map.empty, logs = [], pkg_logs = []\<rparr>"

text \<open>The same machine on a restricted platform: the instance name cannot be read.\<close>

definition restrictedEnv :: env where
  "restrictedEnv = exampleEnv\<lparr>InstanceName := Inl ''metadata: not defined''\<rparr>"

text \<open>The same machine as a Kubernetes node.\<close>

definition kubernetesEnv :: env where
  "kubernetesEnv = exampleEnv\<lparr>IsKubernetes := True\<rparr>"

text \<open>
  The same machine with a second IPv6 list, on the interface in slot 2, between a tab and
  a newline.
\<close>

definition dualStackEnv :: env where
  "dualStackEnv =
     exampleEnv\<lparr>Get := \<lambda>k.
       if k = ''instance/network-interfaces/2/ipv6s''
       then Inr ([CHR 0x09] @ ''2001:db8:2::1'' @ [CHR 0x0A])
       else Get exampleEnv k\<rparr>"

section \<open>Properties\<close>

subsection \<open>Split, Join and the panics of indexing\<close>

lemma Split_nonempty: "Split s c \<noteq> []"
  by (induction s) (auto split: list.splits)

lemma Split_length_pos: "0 < length (Split s c)"
  using Split_nonempty [of s c] by simp

lemma Split_no_sep: "c \<notin> set s \<Longrightarrow> Split s c = [s]"
  by (induction s) (auto split: list.splits)

lemma Split_sep_two: "c \<in> set s \<Longrightarrow> 2 \<le> length (Split s c)"
proof (induction s)
  case Nil
  then show ?case by simp
next
  case (Cons x xs)
  show ?case
  proof (cases "x = c")
    case True
    then show ?thesis using Split_nonempty [of xs c] by (cases "Split xs c") auto
  next
    case False
    with Cons have "2 \<le> length (Split xs c)" by simp
    with False show ?thesis using Split_nonempty [of xs c] by (cases "Split xs c") auto
  qed
qed

lemma Split_tokens_free: "t \<in> set (Split s c) \<Longrightarrow> c \<notin> set t"
proof (induction s arbitrary: t)
  case Nil
  then show ?case by simp
next
  case (Cons x xs)
  obtain h r where hr: "Split xs c = h # r"
    using Split_nonempty [of xs c] by (cases "Split xs c") auto
  show ?case
  proof (cases "x = c")
    case True
    with Cons show ?thesis by auto
  next
    case False
    with Cons.prems hr have "t = x # h \<or> t \<in> set r" by auto
    then show ?thesis
    proof
      assume "t = x # h"
      moreover have "c \<notin> set h" using Cons.IH [of h] hr by simp
      ultimately show ?thesis using False by auto
    next
      assume "t \<in> set r"
      then show ?thesis using Cons.IH [of t] hr by simp
    qed
  qed
qed

lemma Join_Split: "Join (Split s c) [c] = s"
proof (induction s)
  case Nil
  then show ?case by simp
next
  case (Cons x xs)
  obtain h r where hr: "Split xs c = h # r"
    using Split_nonempty [of xs c] by (cases "Split xs c") auto
  show ?case
  proof (cases "x = c")
    case True
    with Cons hr show ?thesis by simp
  next
    case False
    with Cons hr show ?thesis by (cases r) auto
  qed
qed

lemma Join_butlast_last:
  "2 \<le> length ts \<Longrightarrow> Join (butlast ts) sep @ sep @ last ts = Join ts sep"
proof (induction ts sep rule: Join.induct)
  case (3 x y ys sep)
  show ?case
  proof (cases ys)
    case Nil
    then show ?thesis by simp
  next
    case (Cons z zs)
    with 3 show ?thesis by simp
  qed
qed simp_all

lemma getLastToken_last: "getLastToken v = Some (last (Split v CHR ''/''))"
proof -
  have "0 < length (Split v CHR ''/'')" by (rule Split_length_pos)
  then show ?thesis
    by (simp add: getLastToken_def index_def Let_def last_conv_nth Split_nonempty nat_diff_distrib' )
qed

lemma slice_butlast: "xs \<noteq> [] \<Longrightarrow> slice xs 0 (int (length xs) - 1) = Some (butlast xs)"
  by (simp add: slice_def butlast_conv_take nat_diff_distrib')

lemma setRegion_eq:
  "setRegion st =
     Some (setVar ''region'' (Join (butlast (Split (getVar (vars st) ''zone'') CHR ''-'')) ''-'') st)"
  by (simp add: setRegion_def Let_def slice_butlast Split_nonempty)

subsection \<open>The identity loop\<close>

lemma commonLoop_frame:
  "k \<notin> fst ` set kvs \<Longrightarrow> snd (commonLoop kvs m) k = m k"
  by (induction kvs m rule: commonLoop.induct) (auto split: sum.splits)

lemma commonLoop_error:
  "fst (commonLoop kvs m) = Some e \<Longrightarrow>
     \<exists>k err. (k, Inl err) \<in> set kvs \<and> e = metadataError k err"
  by (induction kvs m rule: commonLoop.induct) (auto split: sum.splits)

lemma commonLoop_fails:
  "(k, Inl err) \<in> set kvs \<Longrightarrow> \<exists>e. fst (commonLoop kvs m) = Some e"
  by (induction kvs m rule: commonLoop.induct) (auto split: sum.splits)

lemma commonLoop_none:
  "\<forall>k err. (k, Inl err) \<notin> set kvs \<Longrightarrow> fst (commonLoop kvs m) = None"
  by (induction kvs m rule: commonLoop.induct) (auto split: sum.splits)

lemma commonLoop_value:
  "\<forall>k err. (k, Inl err) \<notin> set kvs \<Longrightarrow> distinct (map fst kvs) \<Longrightarrow> (k, Inr v) \<in> set kvs \<Longrightarrow>
     snd (commonLoop kvs m) k = Some v"
proof (induction kvs m rule: commonLoop.induct)
  case (1 m)
  then show ?case by simp
next
  case (2 k' fn rest m)
  show ?case
  proof (cases fn)
    case (Inl err)
    with 2 show ?thesis by auto
  next
    case (Inr v')
    show ?thesis
    proof (cases "(k, Inr v) \<in> set rest")
      case True
      from "2.prems" have a: "\<forall>k err. (k, Inl err) \<notin> set rest" by auto
      from "2.prems" have b: "distinct (map fst rest)" by simp
      have "snd (commonLoop rest (m(k' \<mapsto> v'))) k = Some v"
        by (rule "2.IH" [OF Inr a b True])
      with Inr show ?thesis by simp
    next
      case False
      with "2.prems" Inr have kv: "k = k'" "v = v'" by auto
      from "2.prems" kv have "k \<notin> fst ` set rest" by auto
      then have "snd (commonLoop rest (m(k' \<mapsto> v'))) k = (m(k' \<mapsto> v')) k"
        by (rule commonLoop_frame)
      with kv Inr show ?thesis by simp
    qed
  qed
qed

lemma range_set:
  "rangeIsPermutation env \<Longrightarrow> set (rangeOrder env (metadataFuncs env)) = set (metadataFuncs env)"
  unfolding rangeIsPermutation_def by (rule mset_eq_setD)

lemma range_distinct:
  assumes "rangeIsPermutation env"
  shows "distinct (map fst (rangeOrder env (metadataFuncs env)))"
proof -
  from assms have "mset (map fst (rangeOrder env (metadataFuncs env))) = mset (map fst (metadataFuncs env))"
    unfolding rangeIsPermutation_def by (metis mset_map)
  moreover have "distinct (map fst (metadataFuncs env))" by (simp add: metadataFuncs_def)
  ultimately show ?thesis by (metis mset_eq_imp_distinct_iff)
qed

lemma commonGCEGKEVars_ok:
  assumes r: "rangeIsPermutation env"
    and p: "ProjectID env = Inr p" and n: "NumericProjectID env = Inr n" and i: "InstanceID env = Inr i"
  shows "commonGCEGKEVars env m =
           (None, m(''project'' \<mapsto> p, ''project_id'' \<mapsto> n, ''instance_id'' \<mapsto> i))"
proof -
  let ?kvs = "rangeOrder env (metadataFuncs env)"
  have s: "set ?kvs = {(''project'', Inr p), (''project_id'', Inr n), (''instance_id'', Inr i)}"
    using range_set [OF r] p n i by (simp add: metadataFuncs_def)
  have ok: "\<forall>k err. (k, Inl err) \<notin> set ?kvs" using s by auto
  have d: "distinct (map fst ?kvs)" by (rule range_distinct [OF r])
  have f: "fst (commonLoop ?kvs m) = None" by (rule commonLoop_none [OF ok])
  have "snd (commonLoop ?kvs m) k = (m(''project'' \<mapsto> p, ''project_id'' \<mapsto> n, ''instance_id'' \<mapsto> i)) k" for k
  proof (cases "k \<in> fst ` set ?kvs")
    case False
    then have "snd (commonLoop ?kvs m) k = m k" by (rule commonLoop_frame)
    moreover from False s have "k \<noteq> ''project''" "k \<noteq> ''project_id''" "k \<noteq> ''instance_id''" by auto
    ultimately show ?thesis by simp
  next
    case True
    then obtain v where kv: "(k, Inr v) \<in> set ?kvs" using s by auto
    have "snd (commonLoop ?kvs m) k = Some v" by (rule commonLoop_value [OF ok d kv])
    moreover from kv s have "(k = ''project'' \<and> v = p) \<or> (k = ''project_id'' \<and> v = n) \<or> (k = ''instance_id'' \<and> v = i)"
      by auto
    ultimately show ?thesis by auto
  qed
  then have "snd (commonLoop ?kvs m) = m(''project'' \<mapsto> p, ''project_id'' \<mapsto> n, ''instance_id'' \<mapsto> i)"
    by (rule ext)
  with f show ?thesis by (simp add: commonGCEGKEVars_def prod_eq_iff)
qed

lemma commonGCEGKEVars_fail:
  assumes r: "rangeIsPermutation env"
    and bad: "(k0, Inl err0) \<in> set (metadataFuncs env)"
  shows "\<exists>k err m'. (k, Inl err) \<in> set (metadataFuncs env) \<and>
           commonGCEGKEVars env m = (Some (metadataError k err), m') \<and>
           (\<forall>x. x \<notin> {''project'', ''project_id'', ''instance_id''} \<longrightarrow> m' x = m x)"
proof -
  let ?kvs = "rangeOrder env (metadataFuncs env)"
  from bad range_set [OF r] have "(k0, Inl err0) \<in> set ?kvs" by simp
  then obtain e where e: "fst (commonLoop ?kvs m) = Some e" using commonLoop_fails by blast
  then obtain k err where ke: "(k, Inl err) \<in> set ?kvs" "e = metadataError k err"
    using commonLoop_error by blast
  have "snd (commonLoop ?kvs m) x = m x" if "x \<notin> {''project'', ''project_id'', ''instance_id''}" for x
  proof (rule commonLoop_frame)
    have "fst ` set ?kvs = {''project'', ''project_id'', ''instance_id''}"
      using range_set [OF r] by (auto simp: metadataFuncs_def)
    with that show "x \<notin> fst ` set ?kvs" by simp
  qed
  with e ke range_set [OF r] show ?thesis
    by (auto simp: commonGCEGKEVars_def prod_eq_iff)
qed

subsection \<open>The keys of the NIC loop\<close>

lemma itoa_small: "i < 10 \<Longrightarrow> itoa i = [digit i]"
  by (subst itoa.simps) simp

lemma digit_inj:
  assumes "i < 10" "j < 10" "digit i = digit j"
  shows "i = j"
proof -
  have c: "n < 10 \<Longrightarrow> n \<in> {0, 1, 2, 3, 4, 5, 6, 7, 8, 9}" for n :: nat by auto
  from c [OF assms(1)] c [OF assms(2)] assms(3) show ?thesis
    by (auto simp: digit_def)
qed

lemma nicIPKey_inj: "i < maxNICs \<Longrightarrow> j < maxNICs \<Longrightarrow> nicIPKey i = nicIPKey j \<Longrightarrow> i = j"
  by (rule digit_inj) (simp_all add: maxNICs_def nicIPKey_def itoa_small)

lemma nicIPv6Path_inj:
  "i < maxNICs \<Longrightarrow> j < maxNICs \<Longrightarrow> nicIPv6Path i = nicIPv6Path j \<Longrightarrow> i = j"
  by (rule digit_inj) (simp_all add: maxNICs_def nicIPv6Path_def itoa_small)

lemma nic_keys_apart:
  "nicIPKey i \<noteq> nicIPv6Path j" "nicIPKey i \<noteq> ''internal_ipv6_ip''"
  "nicIPv6Path j \<noteq> ''internal_ipv6_ip''"
  by (simp_all add: nicIPKey_def nicIPv6Path_def)

subsection \<open>The NIC loop\<close>

lemma nicBody_frame:
  "k \<noteq> nicIPKey i \<Longrightarrow> k \<noteq> nicIPv6Path i \<Longrightarrow> (i = 0 \<longrightarrow> k \<noteq> ''internal_ipv6_ip'') \<Longrightarrow>
     vars (nicBody env i st) k = vars st k"
  by (auto simp: nicBody_def setVar_def logf_def Let_def split: sum.splits)

lemma nicBody_pkg_logs: "pkg_logs (nicBody env i st) = pkg_logs st"
  by (simp add: nicBody_def setVar_def logf_def Let_def split: sum.splits)

lemma nicBody_logs: "\<exists>ls. logs (nicBody env i st) = logs st @ ls"
  by (simp add: nicBody_def setVar_def logf_def Let_def split: sum.splits)

lemma nicBody_skip: "Get env (nicIPPath i) = Inl err \<Longrightarrow> nicBody env i st = st"
  by (simp add: nicBody_def)

lemma nicBody_ip:
  "vars (nicBody env i st) (nicIPKey i) =
     (case Get env (nicIPPath i) of Inl e \<Rightarrow> vars st (nicIPKey i) | Inr v \<Rightarrow> Some v)"
  by (simp add: nicBody_def setVar_def logf_def Let_def nic_keys_apart split: sum.splits)

lemma nicBody_ipv6:
  "vars (nicBody env i st) (nicIPv6Path i) =
     (case Get env (nicIPPath i) of
        Inl e \<Rightarrow> vars st (nicIPv6Path i)
      | Inr v \<Rightarrow>
          (case Get env (nicIPv6Path i) of
             Inl e \<Rightarrow> vars st (nicIPv6Path i)
           | Inr v6 \<Rightarrow> Some (TrimSpace v6)))"
  by (simp add: nicBody_def setVar_def logf_def Let_def nic_keys_apart nic_keys_apart [symmetric]
      split: sum.splits)

lemma nicBody_alias:
  "vars (nicBody env i st) ''internal_ipv6_ip'' =
     (if i = 0 then
        (case Get env (nicIPPath 0) of
           Inl e \<Rightarrow> vars st ''internal_ipv6_ip''
         | Inr v \<Rightarrow>
             (case Get env (nicIPv6Path 0) of
                Inl e \<Rightarrow> vars st ''internal_ipv6_ip''
              | Inr v6 \<Rightarrow> Some (TrimSpace v6)))
      else vars st ''internal_ipv6_ip'')"
  by (simp add: nicBody_def setVar_def logf_def Let_def nic_keys_apart [symmetric]
      split: sum.splits)

lemma nicFold_frame:
  "\<forall>i \<in> set js. k \<noteq> nicIPKey i \<and> k \<noteq> nicIPv6Path i \<and> (i = 0 \<longrightarrow> k \<noteq> ''internal_ipv6_ip'') \<Longrightarrow>
     vars (fold (nicBody env) js st) k = vars st k"
  by (induction js arbitrary: st) (simp_all add: nicBody_frame)

lemma nicFold_pkg_logs: "pkg_logs (fold (nicBody env) js st) = pkg_logs st"
  by (induction js arbitrary: st) (simp_all add: nicBody_pkg_logs)

lemma nicFold_logs: "\<exists>ls. logs (fold (nicBody env) js st) = logs st @ ls"
proof (induction js arbitrary: st)
  case Nil
  then show ?case by simp
next
  case (Cons j js)
  obtain l1 where l1: "logs (nicBody env j st) = logs st @ l1"
    using nicBody_logs by blast
  obtain l2 where "logs (fold (nicBody env) js (nicBody env j st)) = logs (nicBody env j st) @ l2"
    using Cons.IH by blast
  with l1 show ?case by simp
qed

lemma addGceNicInfo_slot:
  assumes "i < maxNICs"
  shows "addGceNicInfo env st =
           fold (nicBody env) [Suc i..<maxNICs] (nicBody env i (fold (nicBody env) [0..<i] st))"
proof -
  from assms have "[0..<maxNICs] = [0..<i] @ [i..<maxNICs]"
    using upt_add_eq_append [of 0 i "maxNICs - i"] by simp
  also from assms have "[i..<maxNICs] = i # [Suc i..<maxNICs]"
    by (rule upt_conv_Cons)
  finally have e: "[0..<maxNICs] = [0..<i] @ i # [Suc i..<maxNICs]" .
  show ?thesis unfolding addGceNicInfo_def by (subst e) simp
qed

text \<open>What only slot \<open>i\<close> can change is decided by the pass for slot \<open>i\<close>.\<close>

lemma addGceNicInfo_at:
  assumes i: "i < maxNICs"
    and others: "\<forall>j < maxNICs. j \<noteq> i \<longrightarrow>
        k \<noteq> nicIPKey j \<and> k \<noteq> nicIPv6Path j \<and> (j = 0 \<longrightarrow> k \<noteq> ''internal_ipv6_ip'')"
    and same: "\<And>s s'. vars s k = vars s' k \<Longrightarrow> vars (nicBody env i s) k = vars (nicBody env i s') k"
  shows "vars (addGceNicInfo env st) k = vars (nicBody env i st) k"
proof -
  let ?before = "fold (nicBody env) [0..<i] st"
  have "vars (addGceNicInfo env st) k = vars (nicBody env i ?before) k"
    unfolding addGceNicInfo_slot [OF i]
  proof (rule nicFold_frame, rule ballI)
    fix j assume "j \<in> set [Suc i..<maxNICs]"
    then have "j < maxNICs" "j \<noteq> i" by auto
    with others show "k \<noteq> nicIPKey j \<and> k \<noteq> nicIPv6Path j \<and> (j = 0 \<longrightarrow> k \<noteq> ''internal_ipv6_ip'')"
      by blast
  qed
  moreover have "vars ?before k = vars st k"
  proof (rule nicFold_frame, rule ballI)
    fix j assume "j \<in> set [0..<i]"
    with i have "j < maxNICs" "j \<noteq> i" by auto
    with others show "k \<noteq> nicIPKey j \<and> k \<noteq> nicIPv6Path j \<and> (j = 0 \<longrightarrow> k \<noteq> ''internal_ipv6_ip'')"
      by blast
  qed
  ultimately show ?thesis using same [of ?before st] by simp
qed

lemma addGceNicInfo_frame:
  "\<forall>i < maxNICs. k \<noteq> nicIPKey i \<and> k \<noteq> nicIPv6Path i \<Longrightarrow> k \<noteq> ''internal_ipv6_ip'' \<Longrightarrow>
     vars (addGceNicInfo env st) k = vars st k"
  unfolding addGceNicInfo_def by (intro nicFold_frame) auto

lemma addGceNicInfo_ip:
  assumes "i < maxNICs"
  shows "vars (addGceNicInfo env st) (nicIPKey i) =
           (case Get env (nicIPPath i) of Inl e \<Rightarrow> vars st (nicIPKey i) | Inr v \<Rightarrow> Some v)"
proof -
  have "vars (addGceNicInfo env st) (nicIPKey i) = vars (nicBody env i st) (nicIPKey i)"
  proof (rule addGceNicInfo_at [OF assms])
    show "\<forall>j<maxNICs. j \<noteq> i \<longrightarrow> nicIPKey i \<noteq> nicIPKey j \<and> nicIPKey i \<noteq> nicIPv6Path j \<and>
            (j = 0 \<longrightarrow> nicIPKey i \<noteq> ''internal_ipv6_ip'')"
      using assms nicIPKey_inj by (auto simp: nic_keys_apart)
  next
    fix s s' :: state assume "vars s (nicIPKey i) = vars s' (nicIPKey i)"
    then show "vars (nicBody env i s) (nicIPKey i) = vars (nicBody env i s') (nicIPKey i)"
      by (simp add: nicBody_ip split: sum.splits)
  qed
  then show ?thesis by (simp add: nicBody_ip)
qed

lemma addGceNicInfo_ipv6:
  assumes "i < maxNICs"
  shows "vars (addGceNicInfo env st) (nicIPv6Path i) =
           (case Get env (nicIPPath i) of
              Inl e \<Rightarrow> vars st (nicIPv6Path i)
            | Inr v \<Rightarrow>
                (case Get env (nicIPv6Path i) of
                   Inl e \<Rightarrow> vars st (nicIPv6Path i)
                 | Inr v6 \<Rightarrow> Some (TrimSpace v6)))"
proof -
  let ?k = "nicIPv6Path i"
  have "vars (addGceNicInfo env st) ?k = vars (nicBody env i st) ?k"
  proof (rule addGceNicInfo_at [OF assms])
    show "\<forall>j<maxNICs. j \<noteq> i \<longrightarrow> ?k \<noteq> nicIPKey j \<and> ?k \<noteq> nicIPv6Path j \<and>
            (j = 0 \<longrightarrow> ?k \<noteq> ''internal_ipv6_ip'')"
      using assms nicIPv6Path_inj by (auto simp: nic_keys_apart nic_keys_apart [symmetric])
  next
    fix s s' :: state assume "vars s ?k = vars s' ?k"
    then show "vars (nicBody env i s) ?k = vars (nicBody env i s') ?k"
      by (simp add: nicBody_ipv6 split: sum.splits)
  qed
  then show ?thesis by (simp add: nicBody_ipv6)
qed

lemma addGceNicInfo_alias:
  "vars (addGceNicInfo env st) ''internal_ipv6_ip'' =
     (case Get env (nicIPPath 0) of
        Inl e \<Rightarrow> vars st ''internal_ipv6_ip''
      | Inr v \<Rightarrow>
          (case Get env (nicIPv6Path 0) of
             Inl e \<Rightarrow> vars st ''internal_ipv6_ip''
           | Inr v6 \<Rightarrow> Some (TrimSpace v6)))"
proof -
  let ?k = "''internal_ipv6_ip''"
  have z: "0 < maxNICs" by (simp add: maxNICs_def)
  have "vars (addGceNicInfo env st) ?k = vars (nicBody env 0 st) ?k"
  proof (rule addGceNicInfo_at [OF z])
    show "\<forall>j<maxNICs. j \<noteq> 0 \<longrightarrow> ?k \<noteq> nicIPKey j \<and> ?k \<noteq> nicIPv6Path j \<and>
            (j = 0 \<longrightarrow> ?k \<noteq> ''internal_ipv6_ip'')"
      by (auto simp: nic_keys_apart [symmetric])
  next
    fix s s' :: state assume "vars s ?k = vars s' ?k"
    then show "vars (nicBody env 0 s) ?k = vars (nicBody env 0 s') ?k"
      by (simp add: nicBody_alias split: sum.splits)
  qed
  then show ?thesis by (simp add: nicBody_alias)
qed

subsection \<open>The attribute loop, the region and the labels\<close>



lemma attrLoop_zone_fails:
  "Zone env = Inl e \<Longrightarrow>
     attrLoop env attrKeys st = Some (Some (metadataError ''zone'' e), st)"
  by (simp add: attrKeys_def attrBody_def storeAttr_def)

lemma attrLoop_internal_ip_fails:
  "Zone env = Inr z \<Longrightarrow> InternalIP env = Inl e \<Longrightarrow>
     attrLoop env attrKeys st =
       Some (Some (metadataError ''internal_ip'' e), setVar ''zone'' z st)"
  by (simp add: attrKeys_def attrBody_def storeAttr_def)

lemma attrLoop_external_ip_fails:
  "Zone env = Inr z \<Longrightarrow> InternalIP env = Inr a \<Longrightarrow> ExternalIP env = Inl e \<Longrightarrow>
     attrLoop env attrKeys st =
       Some (Some (metadataError ''external_ip'' e),
             setVar ''internal_ip'' a (setVar ''zone'' z st))"
  by (simp add: attrKeys_def attrBody_def storeAttr_def)

lemma attrLoop_ok:
  assumes "Zone env = Inr z" "InternalIP env = Inr a" "ExternalIP env = Inr b"
  shows "\<exists>st'. attrLoop env attrKeys st = Some (None, st') \<and>
           vars st' = (vars st)(''zone'' \<mapsto> z, ''internal_ip'' \<mapsto> a, ''external_ip'' \<mapsto> b,
             ''instance_template'' \<mapsto>
               (case InstanceAttributeValue env ''instance-template'' of
                  Inl e \<Rightarrow> ''undefined'' | Inr v \<Rightarrow> last (Split v CHR ''/'')),
             ''machine_type'' \<mapsto>
               (case Get env ''instance/machine-type'' of
                  Inl e \<Rightarrow> ''undefined'' | Inr v \<Rightarrow> last (Split v CHR ''/''))) \<and>
           logs st' = logs st @
             (case InstanceAttributeValue env ''instance-template'' of
                Inl e \<Rightarrow> [(Info, ''No instance_template found. Defaulting to undefined.'')]
              | Inr v \<Rightarrow> []) @
             (case Get env ''instance/machine-type'' of
                Inl e \<Rightarrow> [(Info, ''Could not fetch machine type. Defaulting to undefined.'')]
              | Inr v \<Rightarrow> []) \<and>
           pkg_logs st' = pkg_logs st"
  using assms
  by (simp add: attrKeys_def attrBody_def storeAttr_def setVar_def logf_def getLastToken_last
      split: sum.splits)

lemma addLabels_frame:
  "\<forall>k'. k \<noteq> ''label_'' @ k' \<Longrightarrow> vars (addLabels ls st) k = vars st k"
  by (induction ls st rule: addLabels.induct) (simp_all add: setVar_def)

lemma addLabels_logs: "logs (addLabels ls st) = logs st \<and> pkg_logs (addLabels ls st) = pkg_logs st"
  by (induction ls st rule: addLabels.induct) (simp_all add: setVar_def)

subsection \<open>The path of gceVars through every step\<close>

lemma fixed_keys_not_nic:
  "k \<in> {''project'', ''project_id'', ''instance_id'', ''instance'', ''zone'', ''internal_ip'',
         ''external_ip'', ''instance_template'', ''machine_type'', ''region''} \<Longrightarrow>
     (\<forall>i < maxNICs. k \<noteq> nicIPKey i \<and> k \<noteq> nicIPv6Path i) \<and> k \<noteq> ''internal_ipv6_ip''"
  by (auto simp: nicIPKey_def nicIPv6Path_def)

lemma label_key_not_nic:
  "(\<forall>i < maxNICs. ''label_'' @ k' \<noteq> nicIPKey i \<and> ''label_'' @ k' \<noteq> nicIPv6Path i) \<and>
     ''label_'' @ k' \<noteq> ''internal_ipv6_ip''"
  by (auto simp: nicIPKey_def nicIPv6Path_def)

lemma gceVars_main:
  assumes on: "OnGCE env" and r: "rangeIsPermutation env"
    and p: "ProjectID env = Inr p" and n: "NumericProjectID env = Inr n"
    and i: "InstanceID env = Inr i"
    and k8s: "\<not> IsKubernetes env" and name: "InstanceName env = Inr inst"
    and z: "Zone env = Inr z" and a: "InternalIP env = Inr a" and b: "ExternalIP env = Inr b"
  shows "\<exists>st4.
      gceVars env st =
        (case labelsFromGCE env p z inst (pkg_logs st) of
           (Inl err, pl) \<Rightarrow> Some ((True, Some err), st4\<lparr>pkg_logs := pl\<rparr>)
         | (Inr labels, pl) \<Rightarrow> Some ((True, None), addLabels labels (st4\<lparr>pkg_logs := pl\<rparr>))) \<and>
      (\<forall>k. (\<forall>j < maxNICs. k \<noteq> nicIPKey j \<and> k \<noteq> nicIPv6Path j) \<longrightarrow> k \<noteq> ''internal_ipv6_ip'' \<longrightarrow>
         vars st4 k =
           ((vars st)(''project'' \<mapsto> p, ''project_id'' \<mapsto> n, ''instance_id'' \<mapsto> i,
              ''instance'' \<mapsto> inst, ''zone'' \<mapsto> z, ''internal_ip'' \<mapsto> a, ''external_ip'' \<mapsto> b,
              ''instance_template'' \<mapsto>
                (case InstanceAttributeValue env ''instance-template'' of
                   Inl e \<Rightarrow> ''undefined'' | Inr v \<Rightarrow> last (Split v CHR ''/'')),
              ''machine_type'' \<mapsto>
                (case Get env ''instance/machine-type'' of
                   Inl e \<Rightarrow> ''undefined'' | Inr v \<Rightarrow> last (Split v CHR ''/'')),
              ''region'' \<mapsto> Join (butlast (Split z CHR ''-'')) ''-'')) k) \<and>
      (\<exists>ls. logs st4 = logs st @
         (case InstanceAttributeValue env ''instance-template'' of
            Inl e \<Rightarrow> [(Info, ''No instance_template found. Defaulting to undefined.'')]
          | Inr v \<Rightarrow> []) @
         (case Get env ''instance/machine-type'' of
            Inl e \<Rightarrow> [(Info, ''Could not fetch machine type. Defaulting to undefined.'')]
          | Inr v \<Rightarrow> []) @ ls)"
proof -
  let ?m0 = "(vars st)(''project'' \<mapsto> p, ''project_id'' \<mapsto> n, ''instance_id'' \<mapsto> i)"
  let ?s1 = "setVar ''instance'' inst (st\<lparr>vars := ?m0\<rparr>)"
  let ?T = "case InstanceAttributeValue env ''instance-template'' of
              Inl e \<Rightarrow> ''undefined'' | Inr v \<Rightarrow> last (Split v CHR ''/'')"
  let ?M = "case Get env ''instance/machine-type'' of
              Inl e \<Rightarrow> ''undefined'' | Inr v \<Rightarrow> last (Split v CHR ''/'')"
  let ?R = "Join (butlast (Split z CHR ''-'')) ''-''"
  obtain st2 where loop: "attrLoop env attrKeys ?s1 = Some (None, st2)"
    and v2: "vars st2 = (vars ?s1)(''zone'' \<mapsto> z, ''internal_ip'' \<mapsto> a, ''external_ip'' \<mapsto> b,
               ''instance_template'' \<mapsto> ?T, ''machine_type'' \<mapsto> ?M)"
    and l2: "logs st2 = logs ?s1 @
         (case InstanceAttributeValue env ''instance-template'' of
            Inl e \<Rightarrow> [(Info, ''No instance_template found. Defaulting to undefined.'')]
          | Inr v \<Rightarrow> []) @
         (case Get env ''instance/machine-type'' of
            Inl e \<Rightarrow> [(Info, ''Could not fetch machine type. Defaulting to undefined.'')]
          | Inr v \<Rightarrow> [])"
    and p2: "pkg_logs st2 = pkg_logs ?s1"
    using attrLoop_ok [OF z a b, of ?s1] by blast
  let ?s3 = "setVar ''region'' ?R st2"
  let ?s4 = "addGceNicInfo env ?s3"
  have zone2: "getVar (vars st2) ''zone'' = z" by (simp add: v2 getVar_def)
  have region: "setRegion st2 = Some ?s3" by (simp add: setRegion_eq zone2)
  have frame: "vars ?s4 k = vars ?s3 k"
    if "\<forall>j < maxNICs. k \<noteq> nicIPKey j \<and> k \<noteq> nicIPv6Path j" "k \<noteq> ''internal_ipv6_ip''" for k
    using that by (rule addGceNicInfo_frame)
  have v3: "vars ?s3 = ?m0(''instance'' \<mapsto> inst, ''zone'' \<mapsto> z, ''internal_ip'' \<mapsto> a,
      ''external_ip'' \<mapsto> b, ''instance_template'' \<mapsto> ?T, ''machine_type'' \<mapsto> ?M, ''region'' \<mapsto> ?R)"
    by (simp add: v2 setVar_def)
  have fixed: "vars ?s4 k = vars ?s3 k"
    if "k \<in> {''project'', ''project_id'', ''instance_id'', ''instance'', ''zone'', ''internal_ip'',
         ''external_ip'', ''instance_template'', ''machine_type'', ''region''}" for k
    using fixed_keys_not_nic [OF that] by (intro frame) simp_all
  have g: "getVar (vars ?s4) ''project'' = p" "getVar (vars ?s4) ''zone'' = z"
    "getVar (vars ?s4) ''instance'' = inst"
    by (simp_all add: getVar_def fixed v3)
  have pl: "pkg_logs ?s4 = pkg_logs st"
    by (simp add: addGceNicInfo_def nicFold_pkg_logs setVar_def p2)
  have run: "gceVars env st =
        (case labelsFromGCE env p z inst (pkg_logs st) of
           (Inl err, pl) \<Rightarrow> Some ((True, Some err), ?s4\<lparr>pkg_logs := pl\<rparr>)
         | (Inr labels, pl) \<Rightarrow> Some ((True, None), addLabels labels (?s4\<lparr>pkg_logs := pl\<rparr>)))"
    by (simp add: gceVars_def Let_def on commonGCEGKEVars_ok [OF r p n i] k8s name loop region g pl)
  obtain ls where "logs ?s4 = logs ?s3 @ ls"
    unfolding addGceNicInfo_def using nicFold_logs by blast
  then have lg: "logs ?s4 = logs st @
         (case InstanceAttributeValue env ''instance-template'' of
            Inl e \<Rightarrow> [(Info, ''No instance_template found. Defaulting to undefined.'')]
          | Inr v \<Rightarrow> []) @
         (case Get env ''instance/machine-type'' of
            Inl e \<Rightarrow> [(Info, ''Could not fetch machine type. Defaulting to undefined.'')]
          | Inr v \<Rightarrow> []) @ ls"
    by (simp add: setVar_def l2)
  from run frame lg show ?thesis unfolding v3 [symmetric] by blast
qed

subsection \<open>Totality, the last token and the example machine\<close>

lemma last_Split:
  "c \<notin> set (last (Split v c)) \<and>
     (v = last (Split v c) \<or> (\<exists>pre. v = pre @ [c] @ last (Split v c)))"
proof -
  have "last (Split v c) \<in> set (Split v c)" by (simp add: Split_nonempty)
  then have free: "c \<notin> set (last (Split v c))" by (rule Split_tokens_free)
  show ?thesis
  proof (cases "c \<in> set v")
    case False
    then show ?thesis by (simp add: Split_no_sep)
  next
    case True
    then have "2 \<le> length (Split v c)" by (rule Split_sep_two)
    then have "Join (butlast (Split v c)) [c] @ [c] @ last (Split v c) = Join (Split v c) [c]"
      by (rule Join_butlast_last)
    then have "v = Join (butlast (Split v c)) [c] @ [c] @ last (Split v c)"
      by (simp add: Join_Split)
    with free show ?thesis by blast
  qed
qed


lemma exampleEnv_path:
  "OnGCE exampleEnv" "rangeIsPermutation exampleEnv"
  "ProjectID exampleEnv = Inr ''my-project''" "NumericProjectID exampleEnv = Inr ''1234567''"
  "InstanceID exampleEnv = Inr ''8765''"
  "\<not> IsKubernetes exampleEnv" "InstanceName exampleEnv = Inr ''vm-1''"
  "Zone exampleEnv = Inr ''us-central1-a''" "InternalIP exampleEnv = Inr ''10.0.0.5''"
  "ExternalIP exampleEnv = Inr ''34.1.2.3''"
  by (simp_all add: exampleEnv_def rangeIsPermutation_def metadataFuncs_def)

lemma gceVars_identity_fail:
  assumes "rangeIsPermutation env" and bad: "(k0, Inl err0) \<in> set (metadataFuncs env)"
  shows "\<exists>k err m'. (k, Inl err) \<in> set (metadataFuncs env) \<and>
           commonGCEGKEVars env (vars st) = (Some (metadataError k err), m') \<and>
           (\<forall>x. x \<notin> {''project'', ''project_id'', ''instance_id''} \<longrightarrow> m' x = vars st x) \<and>
           (OnGCE env \<longrightarrow>
              gceVars env st = Some ((True, Some (metadataError k err)), st\<lparr>vars := m'\<rparr>))"
proof -
  from commonGCEGKEVars_fail [OF assms, of "vars st"]
  obtain k err m' where f1: "(k, Inl err) \<in> set (metadataFuncs env)"
    and f2: "commonGCEGKEVars env (vars st) = (Some (metadataError k err), m')"
    and f3: "\<forall>x. x \<notin> {''project'', ''project_id'', ''instance_id''} \<longrightarrow> m' x = vars st x"
    by (elim exE conjE)
  have f4: "OnGCE env \<longrightarrow>
      gceVars env st = Some ((True, Some (metadataError k err)), st\<lparr>vars := m'\<rparr>)"
    by (simp add: gceVars_def f2)
  from f1 f2 f3 f4 show ?thesis by (intro exI conjI)
qed

subsection \<open>What TrimSpace removes and what it leaves\<close>

lemma spaceRunes_nonempty: "w \<in> set spaceRunes \<Longrightarrow> w \<noteq> []"
  by (auto simp: spaceRunes_def)

lemma leadingSpace_zero_iff:
  "leadingSpace s = 0 \<longleftrightarrow> (\<forall>w \<in> set spaceRunes. take (length w) s \<noteq> w)"
proof (cases "filter (\<lambda>w. take (length w) s = w) spaceRunes")
  case Nil
  then show ?thesis by (simp add: leadingSpace_def filter_empty_conv)
next
  case (Cons w ws)
  then have "w \<in> set (filter (\<lambda>w. take (length w) s = w) spaceRunes)" by simp
  then have w: "w \<in> set spaceRunes" "take (length w) s = w" by simp_all
  with spaceRunes_nonempty have "length w \<noteq> 0" by simp
  with Cons w show ?thesis by (auto simp: leadingSpace_def)
qed

lemma leadingSpace_rune:
  assumes "leadingSpace s \<noteq> 0"
  shows "take (leadingSpace s) s \<in> set spaceRunes"
proof (cases "filter (\<lambda>w. take (length w) s = w) spaceRunes")
  case Nil
  with assms show ?thesis by (simp add: leadingSpace_def)
next
  case (Cons w ws)
  then have "w \<in> set (filter (\<lambda>w. take (length w) s = w) spaceRunes)" by simp
  then have "w \<in> set spaceRunes" "take (length w) s = w" by simp_all
  with Cons show ?thesis by (simp add: leadingSpace_def)
qed

lemma trailingSpace_zero_iff:
  "trailingSpace s = 0 \<longleftrightarrow> (\<forall>w \<in> set spaceRunes. drop (length s - length w) s \<noteq> w)"
proof (cases "filter (\<lambda>w. drop (length s - length w) s = w) spaceRunes")
  case Nil
  then show ?thesis by (simp add: trailingSpace_def filter_empty_conv)
next
  case (Cons w ws)
  then have "w \<in> set (filter (\<lambda>w. drop (length s - length w) s = w) spaceRunes)" by simp
  then have w: "w \<in> set spaceRunes" "drop (length s - length w) s = w" by simp_all
  with spaceRunes_nonempty have "length w \<noteq> 0" by simp
  with Cons w show ?thesis by (auto simp: trailingSpace_def)
qed

lemma trailingSpace_rune:
  assumes "trailingSpace s \<noteq> 0"
  shows "drop (length s - trailingSpace s) s \<in> set spaceRunes"
proof (cases "filter (\<lambda>w. drop (length s - length w) s = w) spaceRunes")
  case Nil
  with assms show ?thesis by (simp add: trailingSpace_def)
next
  case (Cons w ws)
  then have "w \<in> set (filter (\<lambda>w. drop (length s - length w) s = w) spaceRunes)" by simp
  then have "w \<in> set spaceRunes" "drop (length s - length w) s = w" by simp_all
  with Cons show ?thesis by (simp add: trailingSpace_def)
qed

lemma TrimLeft_removed: "\<exists>ws. set ws \<subseteq> set spaceRunes \<and> s = concat ws @ TrimLeft s"
proof (induction s rule: TrimLeft.induct)
  case (1 s)
  show ?case
  proof (cases "leadingSpace s = 0")
    case True
    then have "set [] \<subseteq> set spaceRunes \<and> s = concat [] @ TrimLeft s"
      by (subst TrimLeft.simps) simp
    then show ?thesis by blast
  next
    case False
    then obtain ws where ws: "set ws \<subseteq> set spaceRunes"
      "drop (leadingSpace s) s = concat ws @ TrimLeft (drop (leadingSpace s) s)"
      using 1 by blast
    from False have t: "TrimLeft s = TrimLeft (drop (leadingSpace s) s)"
      by (subst TrimLeft.simps) (simp del: TrimLeft.simps)
    have "s = take (leadingSpace s) s @ drop (leadingSpace s) s" by simp
    also have "\<dots> = take (leadingSpace s) s @ concat ws @ TrimLeft (drop (leadingSpace s) s)"
      using ws(2) by (rule arg_cong)
    finally have "s = take (leadingSpace s) s @ concat ws @ TrimLeft (drop (leadingSpace s) s)" .
    then have "s = concat (take (leadingSpace s) s # ws) @ TrimLeft s"
      unfolding t by (simp del: TrimLeft.simps)
    moreover have "set (take (leadingSpace s) s # ws) \<subseteq> set spaceRunes"
      using ws leadingSpace_rune [OF False] by simp
    ultimately show ?thesis by blast
  qed
qed

lemma TrimLeft_clean: "leadingSpace (TrimLeft s) = 0"
proof (induction s rule: TrimLeft.induct)
  case (1 s)
  show ?case
  proof (cases "leadingSpace s = 0")
    case True
    then show ?thesis by (subst TrimLeft.simps) (simp del: TrimLeft.simps)
  next
    case False
    with 1 show ?thesis by (subst TrimLeft.simps) (simp del: TrimLeft.simps)
  qed
qed

lemma TrimRight_removed: "\<exists>ws. set ws \<subseteq> set spaceRunes \<and> s = TrimRight s @ concat ws"
proof (induction s rule: TrimRight.induct)
  case (1 s)
  show ?case
  proof (cases "trailingSpace s = 0")
    case True
    then have "set [] \<subseteq> set spaceRunes \<and> s = TrimRight s @ concat []"
      by (subst TrimRight.simps) simp
    then show ?thesis by blast
  next
    case False
    let ?k = "length s - trailingSpace s"
    from False obtain ws where ws: "set ws \<subseteq> set spaceRunes"
      "take ?k s = TrimRight (take ?k s) @ concat ws"
      using 1 by blast
    from False have t: "TrimRight s = TrimRight (take ?k s)"
      by (subst TrimRight.simps) (simp del: TrimRight.simps)
    have "s = take ?k s @ drop ?k s" by simp
    also have "\<dots> = (TrimRight (take ?k s) @ concat ws) @ drop ?k s"
      using ws(2) by (rule arg_cong)
    finally have "s = TrimRight (take ?k s) @ concat ws @ drop ?k s"
      by (simp only: append_assoc)
    then have "s = TrimRight s @ concat (ws @ [drop ?k s])"
      unfolding t by (simp del: TrimRight.simps)
    moreover have "set (ws @ [drop ?k s]) \<subseteq> set spaceRunes"
      using ws trailingSpace_rune [OF False] by simp
    ultimately show ?thesis by blast
  qed
qed

lemma TrimRight_clean: "trailingSpace (TrimRight s) = 0"
proof (induction s rule: TrimRight.induct)
  case (1 s)
  show ?case
  proof (cases "trailingSpace s = 0")
    case True
    then show ?thesis by (subst TrimRight.simps) (simp del: TrimRight.simps)
  next
    case False
    with 1 show ?thesis by (subst TrimRight.simps) (simp del: TrimRight.simps)
  qed
qed

lemma TrimSpace_spec:
  "(\<exists>ls rs. set ls \<subseteq> set spaceRunes \<and> set rs \<subseteq> set spaceRunes \<and>
       v = concat ls @ TrimSpace v @ concat rs) \<and>
   (\<forall>w \<in> set spaceRunes. \<forall>u. TrimSpace v \<noteq> w @ u \<and> TrimSpace v \<noteq> u @ w)"
proof -
  let ?t = "TrimLeft v"
  obtain ls where ls: "set ls \<subseteq> set spaceRunes" "v = concat ls @ ?t"
    using TrimLeft_removed by blast
  obtain rs where rs: "set rs \<subseteq> set spaceRunes" "?t = TrimRight ?t @ concat rs"
    using TrimRight_removed by blast
  from ls(2) rs(2) have "v = concat ls @ TrimRight ?t @ concat rs" by (simp del: TrimLeft.simps TrimRight.simps)
  then have "v = concat ls @ TrimSpace v @ concat rs"
    by (simp only: TrimSpace_def)
  with ls rs have a: "\<exists>ls rs. set ls \<subseteq> set spaceRunes \<and> set rs \<subseteq> set spaceRunes \<and>
       v = concat ls @ TrimSpace v @ concat rs"
    by blast
  have b: "TrimSpace v \<noteq> w @ u \<and> TrimSpace v \<noteq> u @ w" if w: "w \<in> set spaceRunes" for w u
  proof
    show "TrimSpace v \<noteq> w @ u"
    proof
      assume "TrimSpace v = w @ u"
      then have "?t = w @ u @ concat rs" using rs(2) by (simp add: TrimSpace_def del: TrimLeft.simps TrimRight.simps)
      then have "take (length w) ?t = w" by (simp del: TrimLeft.simps TrimRight.simps)
      moreover have "take (length w) ?t \<noteq> w"
        using TrimLeft_clean [of v] w by (simp add: leadingSpace_zero_iff del: TrimLeft.simps)
      ultimately show False by (simp del: TrimLeft.simps)
    qed
    show "TrimSpace v \<noteq> u @ w"
    proof
      assume e: "TrimSpace v = u @ w"
      then have "drop (length (TrimSpace v) - length w) (TrimSpace v) = w" by (simp del: TrimLeft.simps TrimRight.simps)
      moreover have "drop (length (TrimSpace v) - length w) (TrimSpace v) \<noteq> w"
        using TrimRight_clean [of ?t] w
        by (simp add: trailingSpace_zero_iff TrimSpace_def del: TrimLeft.simps TrimRight.simps)
      ultimately show False by (simp del: TrimLeft.simps TrimRight.simps)
    qed
  qed
  from a b show ?thesis by blast
qed

lemma ascii_space_runes:
  "c \<in> {CHR 0x09, CHR 0x0A, CHR 0x0B, CHR 0x0C, CHR 0x0D, CHR 0x20} \<Longrightarrow> [c] \<in> set spaceRunes"
  by (auto simp: spaceRunes_def)

lemma TrimSpace_ascii_ends:
  assumes "TrimSpace v \<noteq> []"
  shows "hd (TrimSpace v) \<notin> {CHR 0x09, CHR 0x0A, CHR 0x0B, CHR 0x0C, CHR 0x0D, CHR 0x20} \<and>
         last (TrimSpace v) \<notin> {CHR 0x09, CHR 0x0A, CHR 0x0B, CHR 0x0C, CHR 0x0D, CHR 0x20}"
proof (intro conjI notI)
  assume "hd (TrimSpace v) \<in> {CHR 0x09, CHR 0x0A, CHR 0x0B, CHR 0x0C, CHR 0x0D, CHR 0x20}"
  then have "[hd (TrimSpace v)] \<in> set spaceRunes" by (rule ascii_space_runes)
  then have "TrimSpace v \<noteq> [hd (TrimSpace v)] @ tl (TrimSpace v)"
    using TrimSpace_spec [of v] by blast
  with assms show False by simp
next
  assume "last (TrimSpace v) \<in> {CHR 0x09, CHR 0x0A, CHR 0x0B, CHR 0x0C, CHR 0x0D, CHR 0x20}"
  then have "[last (TrimSpace v)] \<in> set spaceRunes" by (rule ascii_space_runes)
  then have "TrimSpace v \<noteq> butlast (TrimSpace v) @ [last (TrimSpace v)]"
    using TrimSpace_spec [of v] by blast
  with assms show False by simp
qed

section \<open>The claims\<close>

text \<open>
  C1, as the code has it: when the instance name cannot be read on GCE outside Kubernetes,
  \<open>gceVars\<close> logs a warning, sets \<open>instance\<close> from the environment variable \<open>HOSTNAME\<close> and
  returns at once with no error. The table has the three identity keys and \<open>instance\<close>
  added and nothing else: no zone, IP, instance template, machine type, region, NIC or
  label step is run.
\<close>

theorem instance_name_fallback_returns:
  assumes "OnGCE env" and "rangeIsPermutation env"
    and "ProjectID env = Inr p" and "NumericProjectID env = Inr n" and "InstanceID env = Inr i"
    and "\<not> IsKubernetes env" and "InstanceName env = Inl err"
  shows "gceVars env st =
           Some ((True, None),
                 st\<lparr>vars := (vars st)(''project'' \<mapsto> p, ''project_id'' \<mapsto> n, ''instance_id'' \<mapsto> i,
                          ''instance'' \<mapsto> Getenv env ''HOSTNAME''),
                    logs := logs st @
                      [(Warning,
                        ''Error getting instance name on GCE, using HOSTNAME environment variable: '' @ err)]\<rparr>)"
  using assms(1,6,7)
  by (simp add: gceVars_def commonGCEGKEVars_ok [OF assms(2-5)] setVar_def logf_def)

theorem instance_name_fallback_returns_witness:
  "gceVars restrictedEnv emptyState =
     Some ((True, None),
           \<lparr>vars = [''project'' \<mapsto> ''my-project'', ''project_id'' \<mapsto> ''1234567'',
                    ''instance_id'' \<mapsto> ''8765'', ''instance'' \<mapsto> ''host-1''],
            logs = [(Warning,
              ''Error getting instance name on GCE, using HOSTNAME environment variable: metadata: not defined'')],
            pkg_logs = []\<rparr>)"
proof -
  have h: "OnGCE restrictedEnv" "rangeIsPermutation restrictedEnv"
    "ProjectID restrictedEnv = Inr ''my-project''" "NumericProjectID restrictedEnv = Inr ''1234567''"
    "InstanceID restrictedEnv = Inr ''8765''" "\<not> IsKubernetes restrictedEnv"
    "InstanceName restrictedEnv = Inl ''metadata: not defined''"
    by (simp_all add: restrictedEnv_def exampleEnv_def rangeIsPermutation_def metadataFuncs_def)
  have "Getenv restrictedEnv ''HOSTNAME'' = ''host-1''"
    by (simp add: restrictedEnv_def exampleEnv_def)
  with instance_name_fallback_returns [OF h, of emptyState] show ?thesis
    by (simp add: emptyState_def)
qed

text \<open>
  C1, as stated, fails: on the restricted machine every other lookup answers (the zone,
  the addresses, the machine type, the interface in slot 0), and the table \<open>gceVars\<close>
  leaves has none of \<open>zone\<close>, \<open>internal_ip\<close>, \<open>external_ip\<close>, \<open>instance_template\<close>,
  \<open>machine_type\<close>, \<open>region\<close>, \<open>nic_0_ip\<close> and \<open>label_env\<close>.
\<close>

theorem instance_name_fallback_counterexample:
  "Zone restrictedEnv = Inr ''us-central1-a'' \<and>
   InternalIP restrictedEnv = Inr ''10.0.0.5'' \<and>
   ExternalIP restrictedEnv = Inr ''34.1.2.3'' \<and>
   Get restrictedEnv ''instance/machine-type'' = Inr ''projects/1234567/machineTypes/e2-small'' \<and>
   Get restrictedEnv (nicIPPath 0) = Inr ''10.0.0.5'' \<and>
   map_option fst (gceVars restrictedEnv emptyState) = Some (True, None) \<and>
   map (vars (snd (the (gceVars restrictedEnv emptyState))))
     [''instance'', ''zone'', ''internal_ip'', ''external_ip'', ''instance_template'',
      ''machine_type'', ''region'', ''nic_0_ip'', ''label_env''] =
     [Some ''host-1'', None, None, None, None, None, None, None, None]"
  by (simp add: restrictedEnv_def exampleEnv_def emptyState_def gceVars_def commonGCEGKEVars_def
      metadataFuncs_def setVar_def logf_def nicIPPath_def itoa.simps digit_def)

text \<open>
  C2: on GCE, with the three identity lookups answered and Kubernetes detected, \<open>gceVars\<close>
  returns no error and adds the three identity keys and \<open>namespace\<close> to the table, nothing
  else: a table that was empty holds exactly these four keys. Nothing is logged.
\<close>

theorem kubernetes_short_circuit:
  assumes "OnGCE env" and "rangeIsPermutation env"
    and "ProjectID env = Inr p" and "NumericProjectID env = Inr n" and "InstanceID env = Inr i"
    and "IsKubernetes env"
  shows "gceVars env st =
           Some ((True, None),
                 st\<lparr>vars := (vars st)(''project'' \<mapsto> p, ''project_id'' \<mapsto> n, ''instance_id'' \<mapsto> i,
                          ''namespace'' \<mapsto> KubernetesNamespace env)\<rparr>) \<and>
         map_option (dom \<circ> vars \<circ> snd) (gceVars env st) =
           Some (dom (vars st) \<union> {''project'', ''project_id'', ''instance_id'', ''namespace''})"
  using assms(1,6)
  by (auto simp: gceVars_def commonGCEGKEVars_ok [OF assms(2-5)] setVar_def)

theorem kubernetes_short_circuit_witness:
  "gceVars kubernetesEnv emptyState =
     Some ((True, None),
           \<lparr>vars = [''project'' \<mapsto> ''my-project'', ''project_id'' \<mapsto> ''1234567'',
                    ''instance_id'' \<mapsto> ''8765'', ''namespace'' \<mapsto> ''default''],
            logs = [], pkg_logs = []\<rparr>) \<and>
   map_option (dom \<circ> vars \<circ> snd) (gceVars kubernetesEnv emptyState) =
     Some {''project'', ''project_id'', ''instance_id'', ''namespace''}"
proof -
  have h: "OnGCE kubernetesEnv" "rangeIsPermutation kubernetesEnv"
    "ProjectID kubernetesEnv = Inr ''my-project''" "NumericProjectID kubernetesEnv = Inr ''1234567''"
    "InstanceID kubernetesEnv = Inr ''8765''" "IsKubernetes kubernetesEnv"
    by (simp_all add: kubernetesEnv_def exampleEnv_def rangeIsPermutation_def metadataFuncs_def)
  have "KubernetesNamespace kubernetesEnv = ''default''"
    by (simp add: kubernetesEnv_def exampleEnv_def)
  with kubernetes_short_circuit [OF h, of emptyState] show ?thesis
    by (simp add: emptyState_def insert_commute)
qed

text \<open>
  C3: when one of the three identity lookups fails, \<open>commonGCEGKEVars\<close> returns an error
  that names a key whose lookup failed, with the error of that lookup, and \<open>gceVars\<close>
  returns that error at once: outside the three identity keys the table is as it was, and
  nothing is logged. When the three lookups succeed, the three values are in the table
  and there is no error. This holds in whatever order \<open>range\<close> walks the map.
\<close>

theorem identity_all_or_nothing:
  assumes "rangeIsPermutation env"
  shows "((k0, Inl err0) \<in> set (metadataFuncs env) \<longrightarrow>
            (\<exists>k err m'. (k, Inl err) \<in> set (metadataFuncs env) \<and>
               commonGCEGKEVars env (vars st) =
                 (Some (''sysvars_gce: error while getting '' @ k @ '' from metadata: '' @ err), m') \<and>
               (\<forall>x. x \<notin> {''project'', ''project_id'', ''instance_id''} \<longrightarrow> m' x = vars st x) \<and>
               (OnGCE env \<longrightarrow>
                  gceVars env st =
                    Some ((True,
                           Some (''sysvars_gce: error while getting '' @ k @ '' from metadata: '' @ err)),
                          st\<lparr>vars := m'\<rparr>)))) \<and>
         (ProjectID env = Inr p \<and> NumericProjectID env = Inr n \<and> InstanceID env = Inr i \<longrightarrow>
            commonGCEGKEVars env (vars st) =
              (None, (vars st)(''project'' \<mapsto> p, ''project_id'' \<mapsto> n, ''instance_id'' \<mapsto> i)))"
proof (intro conjI impI)
  assume bad: "(k0, Inl err0) \<in> set (metadataFuncs env)"
  from gceVars_identity_fail [OF assms bad, of st]
  show "\<exists>k err m'. (k, Inl err) \<in> set (metadataFuncs env) \<and>
           commonGCEGKEVars env (vars st) =
             (Some (''sysvars_gce: error while getting '' @ k @ '' from metadata: '' @ err), m') \<and>
           (\<forall>x. x \<notin> {''project'', ''project_id'', ''instance_id''} \<longrightarrow> m' x = vars st x) \<and>
           (OnGCE env \<longrightarrow>
              gceVars env st =
                Some ((True,
                       Some (''sysvars_gce: error while getting '' @ k @ '' from metadata: '' @ err)),
                      st\<lparr>vars := m'\<rparr>))"
    unfolding metadataError_def .
next
  assume ok: "ProjectID env = Inr p \<and> NumericProjectID env = Inr n \<and> InstanceID env = Inr i"
  then have "ProjectID env = Inr p" "NumericProjectID env = Inr n" "InstanceID env = Inr i"
    by simp_all
  then show "commonGCEGKEVars env (vars st) =
      (None, (vars st)(''project'' \<mapsto> p, ''project_id'' \<mapsto> n, ''instance_id'' \<mapsto> i))"
    by (rule commonGCEGKEVars_ok [OF assms])
qed

theorem identity_all_or_nothing_witness:
  "gceVars (exampleEnv\<lparr>NumericProjectID := Inl ''timeout''\<rparr>) emptyState =
     Some ((True, Some ''sysvars_gce: error while getting project_id from metadata: timeout''),
           emptyState\<lparr>vars := [''instance_id'' \<mapsto> ''8765'']\<rparr>) \<and>
   commonGCEGKEVars exampleEnv Map.empty =
     (None, [''project'' \<mapsto> ''my-project'', ''project_id'' \<mapsto> ''1234567'', ''instance_id'' \<mapsto> ''8765''])"
proof -
  let ?e = "exampleEnv\<lparr>NumericProjectID := Inl ''timeout''\<rparr>"
  have r: "rangeIsPermutation ?e"
    by (simp add: exampleEnv_def rangeIsPermutation_def metadataFuncs_def)
  have bad: "(''project_id'', Inl ''timeout'') \<in> set (metadataFuncs ?e)"
    by (simp add: metadataFuncs_def)
  have on: "OnGCE ?e" by (simp add: exampleEnv_def)
  have c: "commonGCEGKEVars ?e (vars emptyState) =
      (Some ''sysvars_gce: error while getting project_id from metadata: timeout'',
       [''instance_id'' \<mapsto> ''8765''])"
    by (simp add: commonGCEGKEVars_def metadataFuncs_def exampleEnv_def emptyState_def
        metadataError_def)
  from identity_all_or_nothing
      [OF r, of "''project_id''" "''timeout''" emptyState, THEN conjunct1, THEN mp, OF bad]
  obtain k err m' where "(k, Inl err) \<in> set (metadataFuncs ?e)" and
    "commonGCEGKEVars ?e (vars emptyState) =
       (Some (''sysvars_gce: error while getting '' @ k @ '' from metadata: '' @ err), m')"
    and "\<forall>x. x \<notin> {''project'', ''project_id'', ''instance_id''} \<longrightarrow> m' x = vars emptyState x"
    and "OnGCE ?e \<longrightarrow> gceVars ?e emptyState =
       Some ((True, Some (''sysvars_gce: error while getting '' @ k @ '' from metadata: '' @ err)),
             emptyState\<lparr>vars := m'\<rparr>)"
    by (elim exE conjE)
  with c on have 1: "gceVars ?e emptyState =
     Some ((True, Some ''sysvars_gce: error while getting project_id from metadata: timeout''),
           emptyState\<lparr>vars := [''instance_id'' \<mapsto> ''8765'']\<rparr>)"
    by simp
  from identity_all_or_nothing [OF exampleEnv_path(2), of "''project''" "''x''" emptyState
      "''my-project''" "''1234567''" "''8765''"] exampleEnv_path
  have 2: "commonGCEGKEVars exampleEnv Map.empty =
     (None, [''project'' \<mapsto> ''my-project'', ''project_id'' \<mapsto> ''1234567'', ''instance_id'' \<mapsto> ''8765''])"
    by (simp add: emptyState_def)
  from 1 2 show ?thesis ..
qed

text \<open>
  C4: past the instance name, a failed lookup of \<open>zone\<close>, \<open>internal_ip\<close> or \<open>external_ip\<close>
  makes \<open>gceVars\<close> return at once the error that names the field, with the platform flag
  true; the table holds what was set before the failure and nothing of the later steps.
\<close>

theorem mandatory_field_failure:
  assumes "OnGCE env" and "rangeIsPermutation env"
    and "ProjectID env = Inr p" and "NumericProjectID env = Inr n" and "InstanceID env = Inr i"
    and "\<not> IsKubernetes env" and "InstanceName env = Inr inst"
  shows "(Zone env = Inl e \<longrightarrow>
            gceVars env st =
              Some ((True, Some (''sysvars_gce: error while getting zone from metadata: '' @ e)),
                    st\<lparr>vars := (vars st)(''project'' \<mapsto> p, ''project_id'' \<mapsto> n,
                             ''instance_id'' \<mapsto> i, ''instance'' \<mapsto> inst)\<rparr>)) \<and>
         (Zone env = Inr z \<and> InternalIP env = Inl e \<longrightarrow>
            gceVars env st =
              Some ((True, Some (''sysvars_gce: error while getting internal_ip from metadata: '' @ e)),
                    st\<lparr>vars := (vars st)(''project'' \<mapsto> p, ''project_id'' \<mapsto> n,
                             ''instance_id'' \<mapsto> i, ''instance'' \<mapsto> inst, ''zone'' \<mapsto> z)\<rparr>)) \<and>
         (Zone env = Inr z \<and> InternalIP env = Inr a \<and> ExternalIP env = Inl e \<longrightarrow>
            gceVars env st =
              Some ((True, Some (''sysvars_gce: error while getting external_ip from metadata: '' @ e)),
                    st\<lparr>vars := (vars st)(''project'' \<mapsto> p, ''project_id'' \<mapsto> n,
                             ''instance_id'' \<mapsto> i, ''instance'' \<mapsto> inst, ''zone'' \<mapsto> z,
                             ''internal_ip'' \<mapsto> a)\<rparr>))"
  using assms(1,6,7)
  by (simp add: gceVars_def commonGCEGKEVars_ok [OF assms(2-5)] attrLoop_zone_fails
      attrLoop_internal_ip_fails attrLoop_external_ip_fails setVar_def metadataError_def)

theorem mandatory_field_failure_witness:
  "gceVars (exampleEnv\<lparr>InternalIP := Inl ''timeout''\<rparr>) emptyState =
     Some ((True, Some ''sysvars_gce: error while getting internal_ip from metadata: timeout''),
           \<lparr>vars = [''project'' \<mapsto> ''my-project'', ''project_id'' \<mapsto> ''1234567'',
                    ''instance_id'' \<mapsto> ''8765'', ''instance'' \<mapsto> ''vm-1'',
                    ''zone'' \<mapsto> ''us-central1-a''],
            logs = [], pkg_logs = []\<rparr>)"
proof -
  let ?e = "exampleEnv\<lparr>InternalIP := Inl ''timeout''\<rparr>"
  have h: "OnGCE ?e" "rangeIsPermutation ?e"
    "ProjectID ?e = Inr ''my-project''" "NumericProjectID ?e = Inr ''1234567''"
    "InstanceID ?e = Inr ''8765''" "\<not> IsKubernetes ?e" "InstanceName ?e = Inr ''vm-1''"
    by (simp_all add: exampleEnv_def rangeIsPermutation_def metadataFuncs_def)
  have "Zone ?e = Inr ''us-central1-a'' \<and> InternalIP ?e = Inl ''timeout''"
    by (simp add: exampleEnv_def)
  with mandatory_field_failure [OF h, of "''timeout''" emptyState "''us-central1-a''"]
  show ?thesis by (simp add: emptyState_def)
qed

text \<open>
  C5: on the path through every step, \<open>instance_template\<close> and \<open>machine_type\<close> are in the
  table \<open>gceVars\<close> leaves: \<open>undefined\<close> when the lookup failed, with a line at level Info in
  the log, and the last token between slashes of the value when it came. The lookup's
  failure is no error: the only error this path returns is that of the label client, so
  none when the client is built. The last token has no slash in it and is the whole value
  or what follows its last slash.
\<close>

theorem template_and_machine_type:
  assumes "OnGCE env" and "rangeIsPermutation env"
    and "ProjectID env = Inr p" and "NumericProjectID env = Inr n" and "InstanceID env = Inr i"
    and "\<not> IsKubernetes env" and "InstanceName env = Inr inst"
    and "Zone env = Inr z" and "InternalIP env = Inr a" and "ExternalIP env = Inr b"
  shows "\<exists>r st'. gceVars env st = Some ((True, r), st') \<and>
           r = (case NewService env of
                  None \<Rightarrow> None
                | Some e \<Rightarrow> Some (''error creating compute service to get instance labels: '' @ e)) \<and>
           vars st' ''instance_template'' =
             Some (case InstanceAttributeValue env ''instance-template'' of
                     Inl e \<Rightarrow> ''undefined'' | Inr v \<Rightarrow> last (Split v CHR ''/'')) \<and>
           vars st' ''machine_type'' =
             Some (case Get env ''instance/machine-type'' of
                     Inl e \<Rightarrow> ''undefined'' | Inr v \<Rightarrow> last (Split v CHR ''/'')) \<and>
           ((\<exists>e. InstanceAttributeValue env ''instance-template'' = Inl e) \<longrightarrow>
              (Info, ''No instance_template found. Defaulting to undefined.'') \<in> set (logs st')) \<and>
           ((\<exists>e. Get env ''instance/machine-type'' = Inl e) \<longrightarrow>
              (Info, ''Could not fetch machine type. Defaulting to undefined.'') \<in> set (logs st')) \<and>
           (\<forall>v. CHR ''/'' \<notin> set (last (Split v CHR ''/'')) \<and>
              (v = last (Split v CHR ''/'') \<or>
               (\<exists>pre. v = pre @ ''/'' @ last (Split v CHR ''/''))))"
proof -
  let ?T = "case InstanceAttributeValue env ''instance-template'' of
              Inl e \<Rightarrow> ''undefined'' | Inr v \<Rightarrow> last (Split v CHR ''/'')"
  let ?M = "case Get env ''instance/machine-type'' of
              Inl e \<Rightarrow> ''undefined'' | Inr v \<Rightarrow> last (Split v CHR ''/'')"
  let ?LT = "case InstanceAttributeValue env ''instance-template'' of
            Inl e \<Rightarrow> [(Info, ''No instance_template found. Defaulting to undefined.'')]
          | Inr v \<Rightarrow> []"
  let ?LM = "case Get env ''instance/machine-type'' of
            Inl e \<Rightarrow> [(Info, ''Could not fetch machine type. Defaulting to undefined.'')]
          | Inr v \<Rightarrow> []"
  obtain st4 ls where run: "gceVars env st =
        (case labelsFromGCE env p z inst (pkg_logs st) of
           (Inl err, pl) \<Rightarrow> Some ((True, Some err), st4\<lparr>pkg_logs := pl\<rparr>)
         | (Inr labels, pl) \<Rightarrow> Some ((True, None), addLabels labels (st4\<lparr>pkg_logs := pl\<rparr>)))"
    and tab: "\<forall>k. (\<forall>j < maxNICs. k \<noteq> nicIPKey j \<and> k \<noteq> nicIPv6Path j) \<longrightarrow> k \<noteq> ''internal_ipv6_ip'' \<longrightarrow>
         vars st4 k =
           ((vars st)(''project'' \<mapsto> p, ''project_id'' \<mapsto> n, ''instance_id'' \<mapsto> i,
              ''instance'' \<mapsto> inst, ''zone'' \<mapsto> z, ''internal_ip'' \<mapsto> a, ''external_ip'' \<mapsto> b,
              ''instance_template'' \<mapsto> ?T, ''machine_type'' \<mapsto> ?M,
              ''region'' \<mapsto> Join (butlast (Split z CHR ''-'')) ''-'')) k"
    and lg: "logs st4 = logs st @ ?LT @ ?LM @ ls"
    using gceVars_main [OF assms, of st] by blast
  have t4: "vars st4 ''instance_template'' = Some ?T"
    using tab fixed_keys_not_nic [of "''instance_template''"] by simp
  have m4: "vars st4 ''machine_type'' = Some ?M"
    using tab fixed_keys_not_nic [of "''machine_type''"] by simp
  have keep: "vars (addLabels labels (st4\<lparr>pkg_logs := pl\<rparr>)) k = vars st4 k"
    if "k = ''instance_template'' \<or> k = ''machine_type''" for labels pl k
    using that by (subst addLabels_frame) auto
  have lt: "(Info, ''No instance_template found. Defaulting to undefined.'') \<in> set (logs st4)"
    if "InstanceAttributeValue env ''instance-template'' = Inl e" for e
    using that by (simp add: lg)
  have lm: "(Info, ''Could not fetch machine type. Defaulting to undefined.'') \<in> set (logs st4)"
    if "Get env ''instance/machine-type'' = Inl e" for e
    using that by (simp add: lg)
  have tok: "CHR ''/'' \<notin> set (last (Split v CHR ''/'')) \<and>
      (v = last (Split v CHR ''/'') \<or> (\<exists>pre. v = pre @ ''/'' @ last (Split v CHR ''/'')))" for v
    using last_Split [of "CHR ''/''" v] by simp
  show ?thesis
  proof (cases "NewService env")
    case (Some e)
    then have "gceVars env st =
        Some ((True, Some (''error creating compute service to get instance labels: '' @ e)),
              st4\<lparr>pkg_logs := pkg_logs st\<rparr>)"
      by (simp add: run labelsFromGCE_def)
    with Some t4 m4 lt lm tok show ?thesis by auto
  next
    case None
    obtain labels pl where "labelsFromGCE env p z inst (pkg_logs st) = (Inr labels, pl)"
      using None by (cases "InstancesGet env p z inst") (simp_all add: labelsFromGCE_def)
    then have "gceVars env st =
        Some ((True, None), addLabels labels (st4\<lparr>pkg_logs := pl\<rparr>))"
      by (simp add: run)
    with None t4 m4 lt lm tok keep show ?thesis by (auto simp: addLabels_logs)
  qed
qed

theorem template_and_machine_type_witness:
  "\<exists>st'. gceVars exampleEnv emptyState = Some ((True, None), st') \<and>
      vars st' ''instance_template'' = Some ''undefined'' \<and>
      vars st' ''machine_type'' = Some ''e2-small'' \<and>
      (Info, ''No instance_template found. Defaulting to undefined.'') \<in> set (logs st')"
proof -
  have v: "InstanceAttributeValue exampleEnv ''instance-template'' = Inl ''metadata: not defined''"
    "Get exampleEnv ''instance/machine-type'' = Inr ''projects/1234567/machineTypes/e2-small''"
    "NewService exampleEnv = None"
    by (simp_all add: exampleEnv_def)
  obtain r st' where "gceVars exampleEnv emptyState = Some ((True, r), st')"
    and "r = (case NewService exampleEnv of
                None \<Rightarrow> None
              | Some e \<Rightarrow> Some (''error creating compute service to get instance labels: '' @ e))"
    and "vars st' ''instance_template'' =
           Some (case InstanceAttributeValue exampleEnv ''instance-template'' of
                   Inl e \<Rightarrow> ''undefined'' | Inr v \<Rightarrow> last (Split v CHR ''/''))"
    and "vars st' ''machine_type'' =
           Some (case Get exampleEnv ''instance/machine-type'' of
                   Inl e \<Rightarrow> ''undefined'' | Inr v \<Rightarrow> last (Split v CHR ''/''))"
    and "(\<exists>e. InstanceAttributeValue exampleEnv ''instance-template'' = Inl e) \<longrightarrow>
           (Info, ''No instance_template found. Defaulting to undefined.'') \<in> set (logs st')"
    using template_and_machine_type [OF exampleEnv_path, of emptyState] by blast
  then show ?thesis by (simp add: v)
qed

text \<open>
  C6: on the path through every step, \<open>region\<close> is made from the \<open>zone\<close> that is in the
  table (lines 135 and 136 read \<open>vars["zone"]\<close>), as the hyphen-join of all tokens of the zone
  but the last; both are in the table \<open>gceVars\<close> leaves. For a zone with a hyphen in it,
  the zone is the region, a hyphen and a last token that has no hyphen.
\<close>

theorem region_from_zone:
  assumes "OnGCE env" and "rangeIsPermutation env"
    and "ProjectID env = Inr p" and "NumericProjectID env = Inr n" and "InstanceID env = Inr i"
    and "\<not> IsKubernetes env" and "InstanceName env = Inr inst"
    and "Zone env = Inr z" and "InternalIP env = Inr a" and "ExternalIP env = Inr b"
  shows "setRegion st0 =
           Some (setVar ''region''
                  (Join (butlast (Split (getVar (vars st0) ''zone'') CHR ''-'')) ''-'') st0) \<and>
         (\<exists>r st'. gceVars env st = Some ((True, r), st') \<and>
            vars st' ''zone'' = Some z \<and>
            vars st' ''region'' = Some (Join (butlast (Split z CHR ''-'')) ''-'')) \<and>
         (CHR ''-'' \<in> set z \<longrightarrow>
            z = Join (butlast (Split z CHR ''-'')) ''-'' @ ''-'' @ last (Split z CHR ''-'') \<and>
            CHR ''-'' \<notin> set (last (Split z CHR ''-'')))"
proof -
  obtain st4 where run: "gceVars env st =
        (case labelsFromGCE env p z inst (pkg_logs st) of
           (Inl err, pl) \<Rightarrow> Some ((True, Some err), st4\<lparr>pkg_logs := pl\<rparr>)
         | (Inr labels, pl) \<Rightarrow> Some ((True, None), addLabels labels (st4\<lparr>pkg_logs := pl\<rparr>)))"
    and tab: "\<forall>k. (\<forall>j < maxNICs. k \<noteq> nicIPKey j \<and> k \<noteq> nicIPv6Path j) \<longrightarrow> k \<noteq> ''internal_ipv6_ip'' \<longrightarrow>
         vars st4 k =
           ((vars st)(''project'' \<mapsto> p, ''project_id'' \<mapsto> n, ''instance_id'' \<mapsto> i,
              ''instance'' \<mapsto> inst, ''zone'' \<mapsto> z, ''internal_ip'' \<mapsto> a, ''external_ip'' \<mapsto> b,
              ''instance_template'' \<mapsto>
                (case InstanceAttributeValue env ''instance-template'' of
                   Inl e \<Rightarrow> ''undefined'' | Inr v \<Rightarrow> last (Split v CHR ''/'')),
              ''machine_type'' \<mapsto>
                (case Get env ''instance/machine-type'' of
                   Inl e \<Rightarrow> ''undefined'' | Inr v \<Rightarrow> last (Split v CHR ''/'')),
              ''region'' \<mapsto> Join (butlast (Split z CHR ''-'')) ''-'')) k"
    using gceVars_main [OF assms, of st] by blast
  have z4: "vars st4 ''zone'' = Some z"
    using tab fixed_keys_not_nic [of "''zone''"] by simp
  have r4: "vars st4 ''region'' = Some (Join (butlast (Split z CHR ''-'')) ''-'')"
    using tab fixed_keys_not_nic [of "''region''"] by simp
  have keep: "vars (addLabels ls (st4\<lparr>pkg_logs := pl\<rparr>)) k = vars st4 k"
    if "k = ''zone'' \<or> k = ''region''" for ls pl k
    using that by (subst addLabels_frame) auto
  have g: "\<exists>r st'. gceVars env st = Some ((True, r), st') \<and>
            vars st' ''zone'' = Some z \<and>
            vars st' ''region'' = Some (Join (butlast (Split z CHR ''-'')) ''-'')"
  proof (cases "labelsFromGCE env p z inst (pkg_logs st)")
    case (Pair res pl)
    show ?thesis
    proof (cases res)
      case (Inl err)
      with Pair run z4 r4 show ?thesis by simp
    next
      case (Inr labels)
      with Pair run z4 r4 keep show ?thesis by simp
    qed
  qed
  have h: "z = Join (butlast (Split z CHR ''-'')) ''-'' @ ''-'' @ last (Split z CHR ''-'') \<and>
            CHR ''-'' \<notin> set (last (Split z CHR ''-''))" if "CHR ''-'' \<in> set z"
  proof -
    from that have "2 \<le> length (Split z CHR ''-'')" by (rule Split_sep_two)
    then have "Join (butlast (Split z CHR ''-'')) ''-'' @ ''-'' @ last (Split z CHR ''-'')
        = Join (Split z CHR ''-'') ''-''"
      by (rule Join_butlast_last)
    then show ?thesis using last_Split [of "CHR ''-''" z] by (simp add: Join_Split)
  qed
  from g h show ?thesis by (simp add: setRegion_eq)
qed

theorem region_from_zone_witness:
  "(\<exists>r st'. gceVars exampleEnv emptyState = Some ((True, r), st') \<and>
      vars st' ''zone'' = Some ''us-central1-a'' \<and> vars st' ''region'' = Some ''us-central1'') \<and>
   (\<exists>r st'. gceVars (exampleEnv\<lparr>Zone := Inr ''a-b-c-d''\<rparr>) emptyState = Some ((True, r), st') \<and>
      vars st' ''zone'' = Some ''a-b-c-d'' \<and> vars st' ''region'' = Some ''a-b-c'')"
proof -
  have r: "rangeIsPermutation exampleEnv" "rangeIsPermutation (exampleEnv\<lparr>Zone := Inr ''a-b-c-d''\<rparr>)"
    by (simp_all add: rangeIsPermutation_def metadataFuncs_def exampleEnv_def)
  show ?thesis
    using region_from_zone [of exampleEnv "''my-project''" "''1234567''" "''8765''" "''vm-1''"
        "''us-central1-a''" "''10.0.0.5''" "''34.1.2.3''" emptyState emptyState]
      region_from_zone [of "exampleEnv\<lparr>Zone := Inr ''a-b-c-d''\<rparr>" "''my-project''" "''1234567''"
        "''8765''" "''vm-1''" "''a-b-c-d''" "''10.0.0.5''" "''34.1.2.3''" emptyState emptyState]
      r
    by (simp add: exampleEnv_def)
qed

text \<open>
  C7: \<open>addGceNicInfo\<close> returns a state and no error, and treats each slot on its own. A
  slot whose primary-IP lookup fails leaves the state as it is, and the loop goes on with
  the slots after it; in the end \<open>nic_<j>_ip\<close> holds the primary IP of every slot that has
  one and is untouched for the others, and \<open>internal_ipv6_ip\<close> is the trimmed IPv6 value of
  slot 0.
\<close>

theorem nic_slots_independent:
  assumes "j < maxNICs"
  shows "(\<forall>e. Get env (nicIPPath j) = Inl e \<longrightarrow>
            nicBody env j st = st \<and>
            addGceNicInfo env st =
              fold (nicBody env) [Suc j..<maxNICs] (fold (nicBody env) [0..<j] st) \<and>
            vars (addGceNicInfo env st) (nicIPKey j) = vars st (nicIPKey j) \<and>
            vars (addGceNicInfo env st) (nicIPv6Path j) = vars st (nicIPv6Path j)) \<and>
         (\<forall>v. Get env (nicIPPath j) = Inr v \<longrightarrow>
            vars (addGceNicInfo env st) (nicIPKey j) = Some v) \<and>
         (\<forall>v v6. Get env (nicIPPath 0) = Inr v \<and> Get env (nicIPv6Path 0) = Inr v6 \<longrightarrow>
            vars (addGceNicInfo env st) ''internal_ipv6_ip'' = Some (TrimSpace v6)) \<and>
         nicIPKey j = ''nic_'' @ itoa j @ ''_ip''"
proof -
  have a: "nicBody env j st = st \<and>
      addGceNicInfo env st =
        fold (nicBody env) [Suc j..<maxNICs] (fold (nicBody env) [0..<j] st) \<and>
      vars (addGceNicInfo env st) (nicIPKey j) = vars st (nicIPKey j) \<and>
      vars (addGceNicInfo env st) (nicIPv6Path j) = vars st (nicIPv6Path j)"
    if f: "Get env (nicIPPath j) = Inl e" for e
    using addGceNicInfo_ip [OF assms, of env st] addGceNicInfo_ipv6 [OF assms, of env st]
    by (simp add: f nicBody_skip [OF f] addGceNicInfo_slot [OF assms])
  have b: "vars (addGceNicInfo env st) (nicIPKey j) = Some v"
    if f: "Get env (nicIPPath j) = Inr v" for v
    using addGceNicInfo_ip [OF assms, of env st] by (simp add: f)
  have c: "vars (addGceNicInfo env st) ''internal_ipv6_ip'' = Some (TrimSpace v6)"
    if f: "Get env (nicIPPath 0) = Inr v \<and> Get env (nicIPv6Path 0) = Inr v6" for v v6
    using addGceNicInfo_alias [of env st] by (simp add: f)
  have d: "nicIPKey j = ''nic_'' @ itoa j @ ''_ip''" by (simp add: nicIPKey_def)
  show ?thesis
  proof (intro conjI allI impI)
    show "nicIPKey j = ''nic_'' @ itoa j @ ''_ip''" by (rule d)
  qed (use a b c in blast)+
qed

theorem nic_slots_independent_witness:
  "vars (addGceNicInfo exampleEnv emptyState) ''nic_0_ip'' = Some ''10.0.0.5'' \<and>
   vars (addGceNicInfo exampleEnv emptyState) ''nic_1_ip'' = None \<and>
   vars (addGceNicInfo exampleEnv emptyState) ''nic_2_ip'' = Some ''10.2.0.5'' \<and>
   vars (addGceNicInfo exampleEnv emptyState) ''internal_ipv6_ip'' = Some ''2001:db8::1''"
proof -
  have g: "Get exampleEnv (nicIPPath 0) = Inr ''10.0.0.5''"
    "Get exampleEnv (nicIPPath 1) = Inl ''metadata: not defined''"
    "Get exampleEnv (nicIPPath 2) = Inr ''10.2.0.5''"
    "Get exampleEnv (nicIPv6Path 0) = Inr ''  2001:db8::1  ''"
    by (simp_all add: exampleEnv_def nicIPPath_def nicIPv6Path_def itoa.simps digit_def)
  have k: "''nic_'' @ itoa 0 @ ''_ip'' = ''nic_0_ip''" "''nic_'' @ itoa 1 @ ''_ip'' = ''nic_1_ip''"
    "''nic_'' @ itoa 2 @ ''_ip'' = ''nic_2_ip''"
    by (simp_all add: itoa.simps digit_def)
  have t: "TrimSpace ''  2001:db8::1  '' = ''2001:db8::1''"
    by (simp add: TrimSpace_def leadingSpace_def trailingSpace_def spaceRunes_def)
  have m: "(0::nat) < maxNICs" "(1::nat) < maxNICs" "(2::nat) < maxNICs"
    by (simp_all add: maxNICs_def)
  note s0 = nic_slots_independent [OF m(1), of exampleEnv emptyState]
  note s1 = nic_slots_independent [OF m(2), of exampleEnv emptyState]
  note s2 = nic_slots_independent [OF m(3), of exampleEnv emptyState]
  have "vars (addGceNicInfo exampleEnv emptyState) (nicIPKey 0) = Some ''10.0.0.5''"
    using s0 g(1) by blast
  moreover have "vars (addGceNicInfo exampleEnv emptyState) (nicIPKey 1) = vars emptyState (nicIPKey 1)"
    using s1 g(2) by blast
  moreover have "vars (addGceNicInfo exampleEnv emptyState) (nicIPKey 2) = Some ''10.2.0.5''"
    using s2 g(3) by blast
  moreover have "vars (addGceNicInfo exampleEnv emptyState) ''internal_ipv6_ip'' =
      Some (TrimSpace ''  2001:db8::1  '')"
    using s0 g(1) g(4) by blast
  moreover have "nicIPKey 0 = ''nic_0_ip''" "nicIPKey 1 = ''nic_1_ip''" "nicIPKey 2 = ''nic_2_ip''"
    using s0 s1 s2 k by simp_all
  ultimately show ?thesis by (simp add: t emptyState_def)
qed

text \<open>
  C8: for a slot with a primary IP and an IPv6 list, the trimmed list is stored under the
  lookup path \<open>instance/network-interfaces/<j>/ipv6s\<close> itself, with \<open><j>\<close> the digit of the
  slot; the key \<open>nic_<j>_ipv6\<close> is not written; and \<open>internal_ipv6_ip\<close> is written by the pass
  for slot 0 only, with the trimmed list of slot 0. Trimming takes runs of white space off
  both ends and nothing else: the value is a run of white-space runes, the trimmed value
  and a run of white-space runes, and the trimmed value neither starts nor ends with a
  white-space rune; the white-space runes are the UTF-8 encodings of the code points of
  \<open>unicode.IsSpace\<close>.
\<close>

theorem ipv6_stored_under_path:
  assumes "j < maxNICs"
  shows "(\<forall>v v6. Get env (''instance/network-interfaces/'' @ itoa j @ ''/ip'') = Inr v \<and>
                 Get env (''instance/network-interfaces/'' @ itoa j @ ''/ipv6s'') = Inr v6 \<longrightarrow>
            vars (addGceNicInfo env st) (''instance/network-interfaces/'' @ itoa j @ ''/ipv6s'') =
              Some (TrimSpace v6)) \<and>
         vars (addGceNicInfo env st) (''nic_'' @ itoa j @ ''_ipv6'') =
           vars st (''nic_'' @ itoa j @ ''_ipv6'') \<and>
         (j \<noteq> 0 \<longrightarrow>
            vars (nicBody env j st) ''internal_ipv6_ip'' = vars st ''internal_ipv6_ip'') \<and>
         vars (addGceNicInfo env st) ''internal_ipv6_ip'' =
           (case Get env ''instance/network-interfaces/0/ip'' of
              Inl e \<Rightarrow> vars st ''internal_ipv6_ip''
            | Inr v \<Rightarrow>
                (case Get env ''instance/network-interfaces/0/ipv6s'' of
                   Inl e \<Rightarrow> vars st ''internal_ipv6_ip''
                 | Inr v6 \<Rightarrow> Some (TrimSpace v6))) \<and>
         itoa j = [''01234567'' ! j] \<and>
         map (\<lambda>i. ''instance/network-interfaces/'' @ itoa i @ ''/ipv6s'') [0..<maxNICs] =
           [''instance/network-interfaces/0/ipv6s'', ''instance/network-interfaces/1/ipv6s'',
            ''instance/network-interfaces/2/ipv6s'', ''instance/network-interfaces/3/ipv6s'',
            ''instance/network-interfaces/4/ipv6s'', ''instance/network-interfaces/5/ipv6s'',
            ''instance/network-interfaces/6/ipv6s'', ''instance/network-interfaces/7/ipv6s''] \<and>
         (\<forall>s. (\<exists>ls rs. set ls \<subseteq> set spaceRunes \<and> set rs \<subseteq> set spaceRunes \<and>
                  s = concat ls @ TrimSpace s @ concat rs) \<and>
              (\<forall>w \<in> set spaceRunes. \<forall>u. TrimSpace s \<noteq> w @ u \<and> TrimSpace s \<noteq> u @ w) \<and>
              (TrimSpace s \<noteq> [] \<longrightarrow>
                 hd (TrimSpace s) \<notin> {CHR 0x09, CHR 0x0A, CHR 0x0B, CHR 0x0C, CHR 0x0D, CHR 0x20} \<and>
                 last (TrimSpace s) \<notin> {CHR 0x09, CHR 0x0A, CHR 0x0B, CHR 0x0C, CHR 0x0D, CHR 0x20})) \<and>
         set spaceRunes =
           {[CHR 0x09], [CHR 0x0A], [CHR 0x0B], [CHR 0x0C], [CHR 0x0D], [CHR 0x20],
            [CHR 0xC2, CHR 0x85], [CHR 0xC2, CHR 0xA0],
            [CHR 0xE1, CHR 0x9A, CHR 0x80],
            [CHR 0xE2, CHR 0x80, CHR 0x80], [CHR 0xE2, CHR 0x80, CHR 0x81],
            [CHR 0xE2, CHR 0x80, CHR 0x82], [CHR 0xE2, CHR 0x80, CHR 0x83],
            [CHR 0xE2, CHR 0x80, CHR 0x84], [CHR 0xE2, CHR 0x80, CHR 0x85],
            [CHR 0xE2, CHR 0x80, CHR 0x86], [CHR 0xE2, CHR 0x80, CHR 0x87],
            [CHR 0xE2, CHR 0x80, CHR 0x88], [CHR 0xE2, CHR 0x80, CHR 0x89],
            [CHR 0xE2, CHR 0x80, CHR 0x8A],
            [CHR 0xE2, CHR 0x80, CHR 0xA8], [CHR 0xE2, CHR 0x80, CHR 0xA9],
            [CHR 0xE2, CHR 0x80, CHR 0xAF],
            [CHR 0xE2, CHR 0x81, CHR 0x9F],
            [CHR 0xE3, CHR 0x80, CHR 0x80]}"
proof -
  have p0: "nicIPPath 0 = ''instance/network-interfaces/0/ip''"
    "nicIPv6Path 0 = ''instance/network-interfaces/0/ipv6s''"
    by (simp_all add: nicIPPath_def nicIPv6Path_def itoa.simps digit_def)
  have a: "\<forall>v v6. Get env (''instance/network-interfaces/'' @ itoa j @ ''/ip'') = Inr v \<and>
                 Get env (''instance/network-interfaces/'' @ itoa j @ ''/ipv6s'') = Inr v6 \<longrightarrow>
            vars (addGceNicInfo env st) (''instance/network-interfaces/'' @ itoa j @ ''/ipv6s'') =
              Some (TrimSpace v6)"
    using addGceNicInfo_ipv6 [OF assms, of env st]
    by (simp add: nicIPPath_def nicIPv6Path_def)
  have b: "vars (addGceNicInfo env st) (''nic_'' @ itoa j @ ''_ipv6'') =
      vars st (''nic_'' @ itoa j @ ''_ipv6'')"
  proof (rule addGceNicInfo_frame)
    show "''nic_'' @ itoa j @ ''_ipv6'' \<noteq> ''internal_ipv6_ip''" by simp
    show "\<forall>i<maxNICs. ''nic_'' @ itoa j @ ''_ipv6'' \<noteq> nicIPKey i \<and>
            ''nic_'' @ itoa j @ ''_ipv6'' \<noteq> nicIPv6Path i"
      using assms by (simp add: nicIPKey_def nicIPv6Path_def maxNICs_def itoa_small)
  qed
  have c: "j \<noteq> 0 \<longrightarrow>
      vars (nicBody env j st) ''internal_ipv6_ip'' = vars st ''internal_ipv6_ip''"
    by (simp add: nicBody_alias)
  have d: "vars (addGceNicInfo env st) ''internal_ipv6_ip'' =
           (case Get env ''instance/network-interfaces/0/ip'' of
              Inl e \<Rightarrow> vars st ''internal_ipv6_ip''
            | Inr v \<Rightarrow>
                (case Get env ''instance/network-interfaces/0/ipv6s'' of
                   Inl e \<Rightarrow> vars st ''internal_ipv6_ip''
                 | Inr v6 \<Rightarrow> Some (TrimSpace v6)))"
    using addGceNicInfo_alias [of env st] unfolding p0 .
  have "j \<in> {0, 1, 2, 3, 4, 5, 6, 7}" using assms by (auto simp: maxNICs_def)
  then have e: "itoa j = [''01234567'' ! j]"
    by (auto simp: itoa.simps digit_def)
  have "[0..<maxNICs] = [0, 1, 2, 3, 4, 5, 6, 7]"
    by (simp add: maxNICs_def upt_rec)
  then have f: "map (\<lambda>i. ''instance/network-interfaces/'' @ itoa i @ ''/ipv6s'') [0..<maxNICs] =
           [''instance/network-interfaces/0/ipv6s'', ''instance/network-interfaces/1/ipv6s'',
            ''instance/network-interfaces/2/ipv6s'', ''instance/network-interfaces/3/ipv6s'',
            ''instance/network-interfaces/4/ipv6s'', ''instance/network-interfaces/5/ipv6s'',
            ''instance/network-interfaces/6/ipv6s'', ''instance/network-interfaces/7/ipv6s'']"
    by (simp add: itoa.simps digit_def)
  have g: "\<forall>s. (\<exists>ls rs. set ls \<subseteq> set spaceRunes \<and> set rs \<subseteq> set spaceRunes \<and>
                  s = concat ls @ TrimSpace s @ concat rs) \<and>
              (\<forall>w \<in> set spaceRunes. \<forall>u. TrimSpace s \<noteq> w @ u \<and> TrimSpace s \<noteq> u @ w) \<and>
              (TrimSpace s \<noteq> [] \<longrightarrow>
                 hd (TrimSpace s) \<notin> {CHR 0x09, CHR 0x0A, CHR 0x0B, CHR 0x0C, CHR 0x0D, CHR 0x20} \<and>
                 last (TrimSpace s) \<notin> {CHR 0x09, CHR 0x0A, CHR 0x0B, CHR 0x0C, CHR 0x0D, CHR 0x20})"
  proof (intro allI conjI impI)
    fix s
    show "\<exists>ls rs. set ls \<subseteq> set spaceRunes \<and> set rs \<subseteq> set spaceRunes \<and>
                  s = concat ls @ TrimSpace s @ concat rs"
      using TrimSpace_spec [of s] by (rule conjunct1)
    show "\<forall>w \<in> set spaceRunes. \<forall>u. TrimSpace s \<noteq> w @ u \<and> TrimSpace s \<noteq> u @ w"
      using TrimSpace_spec [of s] by (rule conjunct2)
  next
    fix s assume n: "TrimSpace s \<noteq> []"
    from TrimSpace_ascii_ends [OF n]
    show "hd (TrimSpace s) \<notin> {CHR 0x09, CHR 0x0A, CHR 0x0B, CHR 0x0C, CHR 0x0D, CHR 0x20}"
      by (rule conjunct1)
    from TrimSpace_ascii_ends [OF n]
    show "last (TrimSpace s) \<notin> {CHR 0x09, CHR 0x0A, CHR 0x0B, CHR 0x0C, CHR 0x0D, CHR 0x20}"
      by (rule conjunct2)
  qed
  have h: "set spaceRunes =
           {[CHR 0x09], [CHR 0x0A], [CHR 0x0B], [CHR 0x0C], [CHR 0x0D], [CHR 0x20],
            [CHR 0xC2, CHR 0x85], [CHR 0xC2, CHR 0xA0],
            [CHR 0xE1, CHR 0x9A, CHR 0x80],
            [CHR 0xE2, CHR 0x80, CHR 0x80], [CHR 0xE2, CHR 0x80, CHR 0x81],
            [CHR 0xE2, CHR 0x80, CHR 0x82], [CHR 0xE2, CHR 0x80, CHR 0x83],
            [CHR 0xE2, CHR 0x80, CHR 0x84], [CHR 0xE2, CHR 0x80, CHR 0x85],
            [CHR 0xE2, CHR 0x80, CHR 0x86], [CHR 0xE2, CHR 0x80, CHR 0x87],
            [CHR 0xE2, CHR 0x80, CHR 0x88], [CHR 0xE2, CHR 0x80, CHR 0x89],
            [CHR 0xE2, CHR 0x80, CHR 0x8A],
            [CHR 0xE2, CHR 0x80, CHR 0xA8], [CHR 0xE2, CHR 0x80, CHR 0xA9],
            [CHR 0xE2, CHR 0x80, CHR 0xAF],
            [CHR 0xE2, CHR 0x81, CHR 0x9F],
            [CHR 0xE3, CHR 0x80, CHR 0x80]}"
    unfolding spaceRunes_def by (simp only: list.set)
  show ?thesis by (intro conjI; fact)
qed

theorem ipv6_stored_under_path_witness:
  "vars (addGceNicInfo dualStackEnv emptyState) ''instance/network-interfaces/0/ipv6s'' =
     Some ''2001:db8::1'' \<and>
   vars (addGceNicInfo dualStackEnv emptyState) ''instance/network-interfaces/2/ipv6s'' =
     Some ''2001:db8:2::1'' \<and>
   vars (addGceNicInfo dualStackEnv emptyState) ''nic_0_ipv6'' = None \<and>
   vars (addGceNicInfo dualStackEnv emptyState) ''nic_2_ipv6'' = None \<and>
   vars (addGceNicInfo dualStackEnv emptyState) ''internal_ipv6_ip'' = Some ''2001:db8::1'' \<and>
   vars (nicBody dualStackEnv 2 emptyState) ''instance/network-interfaces/2/ipv6s'' =
     Some ''2001:db8:2::1'' \<and>
   vars (nicBody dualStackEnv 2 emptyState) ''internal_ipv6_ip'' = None \<and>
   TrimSpace ([CHR 0x09] @ ''2001:db8:2::1'' @ [CHR 0x0A]) = ''2001:db8:2::1''"
proof -
  have k: "itoa 0 = ''0''" "itoa 2 = ''2''" by (simp_all add: itoa.simps digit_def)
  have g0: "Get dualStackEnv (''instance/network-interfaces/'' @ itoa 0 @ ''/ip'') = Inr ''10.0.0.5'' \<and>
      Get dualStackEnv (''instance/network-interfaces/'' @ itoa 0 @ ''/ipv6s'') = Inr ''  2001:db8::1  ''"
    by (simp add: k dualStackEnv_def exampleEnv_def)
  have g2: "Get dualStackEnv (''instance/network-interfaces/'' @ itoa 2 @ ''/ip'') = Inr ''10.2.0.5'' \<and>
      Get dualStackEnv (''instance/network-interfaces/'' @ itoa 2 @ ''/ipv6s'') =
        Inr ([CHR 0x09] @ ''2001:db8:2::1'' @ [CHR 0x0A])"
    by (simp add: k dualStackEnv_def exampleEnv_def)
  have z: "Get dualStackEnv ''instance/network-interfaces/0/ip'' = Inr ''10.0.0.5''"
    "Get dualStackEnv ''instance/network-interfaces/0/ipv6s'' = Inr ''  2001:db8::1  ''"
    by (simp_all add: dualStackEnv_def exampleEnv_def)
  have t0: "TrimSpace ''  2001:db8::1  '' = ''2001:db8::1''"
    by (simp add: TrimSpace_def leadingSpace_def trailingSpace_def spaceRunes_def)
  have t2: "TrimSpace ([CHR 0x09] @ ''2001:db8:2::1'' @ [CHR 0x0A]) = ''2001:db8:2::1''"
    by (simp add: TrimSpace_def leadingSpace_def trailingSpace_def spaceRunes_def)
  have m: "(0::nat) < maxNICs" "(2::nat) < maxNICs"
    by (simp_all add: maxNICs_def)
  note s0 = ipv6_stored_under_path [OF m(1), of dualStackEnv emptyState]
  note s2 = ipv6_stored_under_path [OF m(2), of dualStackEnv emptyState]
  have a0: "vars (addGceNicInfo dualStackEnv emptyState)
        (''instance/network-interfaces/'' @ itoa 0 @ ''/ipv6s'') = Some (TrimSpace ''  2001:db8::1  '')"
    by (rule s0 [THEN conjunct1, rule_format, OF g0])
  have a2: "vars (addGceNicInfo dualStackEnv emptyState)
        (''instance/network-interfaces/'' @ itoa 2 @ ''/ipv6s'') =
      Some (TrimSpace ([CHR 0x09] @ ''2001:db8:2::1'' @ [CHR 0x0A]))"
    by (rule s2 [THEN conjunct1, rule_format, OF g2])
  have b0: "vars (addGceNicInfo dualStackEnv emptyState) (''nic_'' @ itoa 0 @ ''_ipv6'') =
      vars emptyState (''nic_'' @ itoa 0 @ ''_ipv6'')"
    by (rule s0 [THEN conjunct2, THEN conjunct1])
  have b2: "vars (addGceNicInfo dualStackEnv emptyState) (''nic_'' @ itoa 2 @ ''_ipv6'') =
      vars emptyState (''nic_'' @ itoa 2 @ ''_ipv6'')"
    by (rule s2 [THEN conjunct2, THEN conjunct1])
  have c2: "vars (nicBody dualStackEnv 2 emptyState) ''internal_ipv6_ip'' =
      vars emptyState ''internal_ipv6_ip''"
    using s2 [THEN conjunct2, THEN conjunct2, THEN conjunct1] by simp
  have d: "vars (addGceNicInfo dualStackEnv emptyState) ''internal_ipv6_ip'' =
      Some (TrimSpace ''  2001:db8::1  '')"
    using s0 [THEN conjunct2, THEN conjunct2, THEN conjunct2, THEN conjunct1] by (simp add: z)
  have n2: "vars (nicBody dualStackEnv 2 emptyState) ''instance/network-interfaces/2/ipv6s'' =
      Some ''2001:db8:2::1''"
    using g2 t2 by (simp add: nicBody_def nicIPPath_def nicIPv6Path_def k setVar_def Let_def)
  from a0 a2 b0 b2 c2 d n2 t2 show ?thesis
    by (simp add: k t0 emptyState_def)
qed

text \<open>
  C9: \<open>labelsFromGCE\<close> returns an error when the client cannot be built, and \<open>gceVars\<close>
  returns that error; when the client is built and the lookup of the instance fails,
  \<open>labelsFromGCE\<close> logs a warning and returns no labels and no error, and \<open>gceVars\<close>
  returns no error and leaves every key that starts with \<open>label_\<close> as it found it.
\<close>

theorem label_failure_policy:
  assumes "OnGCE env" and "rangeIsPermutation env"
    and "ProjectID env = Inr p" and "NumericProjectID env = Inr n" and "InstanceID env = Inr i"
    and "\<not> IsKubernetes env" and "InstanceName env = Inr inst"
    and "Zone env = Inr z" and "InternalIP env = Inr a" and "ExternalIP env = Inr b"
  shows "(\<forall>e. NewService env = Some e \<longrightarrow>
            labelsFromGCE env pr zn ins pl =
              (Inl (''error creating compute service to get instance labels: '' @ e), pl) \<and>
            (\<exists>st'. gceVars env st =
               Some ((True, Some (''error creating compute service to get instance labels: '' @ e)), st') \<and>
               (\<forall>k'. vars st' (''label_'' @ k') = vars st (''label_'' @ k')))) \<and>
         (\<forall>e. NewService env = None \<and> InstancesGet env pr zn ins = Inl e \<longrightarrow>
            labelsFromGCE env pr zn ins pl =
              (Inr [], pl @ [(Warning,
                 ''sysvars_gce: Error while fetching the instance resource using GCE API: '' @ e @
                 ''. Continuing without labels info.'')])) \<and>
         (\<forall>e. NewService env = None \<and> InstancesGet env p z inst = Inl e \<longrightarrow>
            (\<exists>st'. gceVars env st = Some ((True, None), st') \<and>
               (\<forall>k'. vars st' (''label_'' @ k') = vars st (''label_'' @ k')) \<and>
               pkg_logs st' = pkg_logs st @ [(Warning,
                 ''sysvars_gce: Error while fetching the instance resource using GCE API: '' @ e @
                 ''. Continuing without labels info.'')]))"
proof -
  obtain st4 where run: "gceVars env st =
        (case labelsFromGCE env p z inst (pkg_logs st) of
           (Inl err, pl) \<Rightarrow> Some ((True, Some err), st4\<lparr>pkg_logs := pl\<rparr>)
         | (Inr labels, pl) \<Rightarrow> Some ((True, None), addLabels labels (st4\<lparr>pkg_logs := pl\<rparr>)))"
    and tab: "\<forall>k. (\<forall>j < maxNICs. k \<noteq> nicIPKey j \<and> k \<noteq> nicIPv6Path j) \<longrightarrow> k \<noteq> ''internal_ipv6_ip'' \<longrightarrow>
         vars st4 k =
           ((vars st)(''project'' \<mapsto> p, ''project_id'' \<mapsto> n, ''instance_id'' \<mapsto> i,
              ''instance'' \<mapsto> inst, ''zone'' \<mapsto> z, ''internal_ip'' \<mapsto> a, ''external_ip'' \<mapsto> b,
              ''instance_template'' \<mapsto>
                (case InstanceAttributeValue env ''instance-template'' of
                   Inl e \<Rightarrow> ''undefined'' | Inr v \<Rightarrow> last (Split v CHR ''/'')),
              ''machine_type'' \<mapsto>
                (case Get env ''instance/machine-type'' of
                   Inl e \<Rightarrow> ''undefined'' | Inr v \<Rightarrow> last (Split v CHR ''/'')),
              ''region'' \<mapsto> Join (butlast (Split z CHR ''-'')) ''-'')) k"
    using gceVars_main [OF assms, of st] by blast
  have lab: "vars st4 (''label_'' @ k') = vars st (''label_'' @ k')" for k'
    using tab label_key_not_nic [of k'] by simp
  have a: "labelsFromGCE env pr zn ins pl =
        (Inl (''error creating compute service to get instance labels: '' @ e), pl)"
    if "NewService env = Some e" for e pr zn ins pl
    using that by (simp add: labelsFromGCE_def)
  have b: "labelsFromGCE env pr zn ins pl =
        (Inr [], pl @ [(Warning,
           ''sysvars_gce: Error while fetching the instance resource using GCE API: '' @ e @
           ''. Continuing without labels info.'')])"
    if "NewService env = None" "InstancesGet env pr zn ins = Inl e" for e pr zn ins pl
    using that by (simp add: labelsFromGCE_def)
  have c: "\<exists>st'. gceVars env st =
       Some ((True, Some (''error creating compute service to get instance labels: '' @ e)), st') \<and>
       (\<forall>k'. vars st' (''label_'' @ k') = vars st (''label_'' @ k'))"
    if "NewService env = Some e" for e
    using lab by (simp add: run a [OF that])
  have d: "\<exists>st'. gceVars env st = Some ((True, None), st') \<and>
       (\<forall>k'. vars st' (''label_'' @ k') = vars st (''label_'' @ k')) \<and>
       pkg_logs st' = pkg_logs st @ [(Warning,
         ''sysvars_gce: Error while fetching the instance resource using GCE API: '' @ e @
         ''. Continuing without labels info.'')]"
    if "NewService env = None" "InstancesGet env p z inst = Inl e" for e
    using lab by (simp add: run b [OF that])
  from a b c d show ?thesis by blast
qed

theorem label_failure_policy_witness:
  "(\<exists>st'. gceVars (exampleEnv\<lparr>NewService := Some ''no credentials''\<rparr>) emptyState =
      Some ((True, Some ''error creating compute service to get instance labels: no credentials''), st') \<and>
      (\<forall>k'. vars st' (''label_'' @ k') = None)) \<and>
   (\<exists>st'. gceVars (exampleEnv\<lparr>InstancesGet := \<lambda>project zone instance. Inl ''403''\<rparr>) emptyState =
      Some ((True, None), st') \<and>
      (\<forall>k'. vars st' (''label_'' @ k') = None) \<and>
      pkg_logs st' = [(Warning,
        ''sysvars_gce: Error while fetching the instance resource using GCE API: 403. Continuing without labels info.'')])"
proof -
  let ?e1 = "exampleEnv\<lparr>NewService := Some ''no credentials''\<rparr>"
  let ?e2 = "exampleEnv\<lparr>InstancesGet := \<lambda>project zone instance. Inl ''403''\<rparr>"
  have p1: "OnGCE ?e1" "rangeIsPermutation ?e1"
    "ProjectID ?e1 = Inr ''my-project''" "NumericProjectID ?e1 = Inr ''1234567''"
    "InstanceID ?e1 = Inr ''8765''" "\<not> IsKubernetes ?e1" "InstanceName ?e1 = Inr ''vm-1''"
    "Zone ?e1 = Inr ''us-central1-a''" "InternalIP ?e1 = Inr ''10.0.0.5''"
    "ExternalIP ?e1 = Inr ''34.1.2.3''"
    by (simp_all add: exampleEnv_def rangeIsPermutation_def metadataFuncs_def)
  have p2: "OnGCE ?e2" "rangeIsPermutation ?e2"
    "ProjectID ?e2 = Inr ''my-project''" "NumericProjectID ?e2 = Inr ''1234567''"
    "InstanceID ?e2 = Inr ''8765''" "\<not> IsKubernetes ?e2" "InstanceName ?e2 = Inr ''vm-1''"
    "Zone ?e2 = Inr ''us-central1-a''" "InternalIP ?e2 = Inr ''10.0.0.5''"
    "ExternalIP ?e2 = Inr ''34.1.2.3''"
    by (simp_all add: exampleEnv_def rangeIsPermutation_def metadataFuncs_def)
  have n1: "NewService ?e1 = Some ''no credentials''" by simp
  have n2: "NewService ?e2 = None \<and> InstancesGet ?e2 ''my-project'' ''us-central1-a'' ''vm-1'' = Inl ''403''"
    by (simp add: exampleEnv_def)
  from label_failure_policy [OF p1, of "[]" "[]" "[]" "[]" emptyState] n1
  have "\<exists>st'. gceVars ?e1 emptyState =
       Some ((True, Some (''error creating compute service to get instance labels: '' @ ''no credentials'')), st') \<and>
       (\<forall>k'. vars st' (''label_'' @ k') = vars emptyState (''label_'' @ k'))"
    by blast
  moreover from label_failure_policy [OF p2, of "[]" "[]" "[]" "[]" emptyState] n2
  have "\<exists>st'. gceVars ?e2 emptyState = Some ((True, None), st') \<and>
       (\<forall>k'. vars st' (''label_'' @ k') = vars emptyState (''label_'' @ k')) \<and>
       pkg_logs st' = pkg_logs emptyState @ [(Warning,
         ''sysvars_gce: Error while fetching the instance resource using GCE API: '' @ ''403'' @
         ''. Continuing without labels info.'')]"
    by blast
  ultimately show ?thesis by (simp add: emptyState_def)
qed



end
